theory Spec2Isabelle
  imports Complex_Main "HOL-Library.Sublist"
begin

section \<open>Numbers and spend limits of the configuration store\<close>

text \<open>
  A JavaScript \<^verbatim>\<open>number\<close> is modelled as a finite value, one of the two infinities, or
  NaN.  Finite values are exact rationals: the model keeps the comparisons and the decimal
  rounding of the source and leaves the binary rounding of IEEE doubles out.
\<close>

datatype jsnum = NaN | NegInfinity | PosInfinity | Fin rat

text \<open>\<^verbatim>\<open>a <= b\<close> on numbers: false as soon as one side is NaN.\<close>

fun js_le :: "jsnum \<Rightarrow> jsnum \<Rightarrow> bool" where
  "js_le NaN _ = False"
| "js_le _ NaN = False"
| "js_le NegInfinity _ = True"
| "js_le _ PosInfinity = True"
| "js_le PosInfinity _ = False"
| "js_le _ NegInfinity = False"
| "js_le (Fin a) (Fin b) = (a \<le> b)"

text \<open>
  \<^verbatim>\<open>Number(value.toFixed(3))\<close>.  For a finite \<open>x\<close> below \<open>10^21\<close> the method \<^verbatim>\<open>toFixed\<close>
  picks the integer \<open>n\<close> with \<open>n / 1000\<close> nearest to \<open>|x|\<close>, the larger one on a tie; from
  \<open>10^21\<close> on, and for the infinities and NaN, it prints the number itself, which
  \<^verbatim>\<open>Number\<close> reads back.
\<close>

definition toFixed3_abs :: "rat \<Rightarrow> rat" where
  "toFixed3_abs x = (if 10 ^ 21 \<le> x then x else of_int \<lfloor>x * 1000 + 1 / 2\<rfloor> / 1000)"

fun toFixed3 :: "jsnum \<Rightarrow> jsnum" where
  "toFixed3 (Fin x) = (if x < 0 then Fin (- toFixed3_abs (- x)) else Fin (toFixed3_abs x))"
| "toFixed3 v = v"

text \<open>\<^verbatim>\<open>normalizeSpendLimit\<close> of the configuration store; \<open>None\<close> is \<^verbatim>\<open>null\<close> or \<^verbatim>\<open>undefined\<close>.\<close>

definition normalizeSpendLimit :: "jsnum option \<Rightarrow> jsnum option" where
  "normalizeSpendLimit value =
     (case value of
        None \<Rightarrow> None
      | Some NaN \<Rightarrow> None
      | Some v \<Rightarrow> (if js_le v (Fin 0) then None else Some (toFixed3 v)))"

text \<open>
  The configuration file, as far as the queue reads it: the two spend limits, and the API
  key as \<^verbatim>\<open>getApiKey\<close> returns it (the decoded key, \<open>None\<close> when none is stored or it cannot be
  decoded).  The public configuration hands out the normalised limits.
\<close>

record StudioConfigFile =
  apiKey :: "string option"
  monthlySpendLimitUsd :: "jsnum option"
  totalSpendLimitUsd :: "jsnum option"

record StudioConfigPublic =
  pub_monthlySpendLimitUsd :: "jsnum option"
  pub_totalSpendLimitUsd :: "jsnum option"

definition getPublicConfig :: "StudioConfigFile \<Rightarrow> StudioConfigPublic" where
  "getPublicConfig config =
     \<lparr> pub_monthlySpendLimitUsd = normalizeSpendLimit (monthlySpendLimitUsd config),
       pub_totalSpendLimitUsd = normalizeSpendLimit (totalSpendLimitUsd config) \<rparr>"

section \<open>Resolution sent to the remote API\<close>

text \<open>
  \<^verbatim>\<open>normalizeResolutionForModel\<close> of the remote client.  The resolution is an optional
  string; \<^verbatim>\<open>!resolution\<close> holds when it is absent or the empty string.
\<close>

definition normalizeResolutionForModel :: "string \<Rightarrow> string option \<Rightarrow> string option" where
  "normalizeResolutionForModel model resolution =
     (if resolution = None \<or> resolution = Some [] then None
      else if model = ''gemini-2.5-flash-image'' \<or> model = ''gemini-2.5-flash-image-preview''
           then Some ''1K''
      else resolution)"

text \<open>The models the source treats as the fast tier: the two names tested above.\<close>

definition is_fast_model :: "string \<Rightarrow> bool" where
  "is_fast_model m \<longleftrightarrow> m = ''gemini-2.5-flash-image'' \<or> m = ''gemini-2.5-flash-image-preview''"

text \<open>
  The resolution names the request boundary admits (\<^verbatim>\<open>ALLOWED_RESOLUTIONS\<close>), and the
  values of the shared \<^verbatim>\<open>Resolution\<close> type.
\<close>

definition Resolution_values :: "string list" where
  "Resolution_values = [''1K'', ''2K'', ''4K'']"


definition ALLOWED_RESOLUTIONS :: "string list" where
  "ALLOWED_RESOLUTIONS = [''512px'', ''1K'', ''2K'', ''4K'']"

text \<open>
  The order of the tiers, as the spec reads their names: the nominal edge length in
  pixels, and the lowest tier of a non-empty list of names.
\<close>

definition nominal_pixels :: "string \<Rightarrow> nat" where
  "nominal_pixels r =
     (if r = ''512px'' then 512 else if r = ''1K'' then 1024
      else if r = ''2K'' then 2048 else if r = ''4K'' then 4096 else 0)"

fun lowest_tier :: "string list \<Rightarrow> string option" where
  "lowest_tier [] = None"
| "lowest_tier (r # rs) =
     (case lowest_tier rs of
        None \<Rightarrow> Some r
      | Some m \<Rightarrow> if nominal_pixels r \<le> nominal_pixels m then Some r else Some m)"


section \<open>Errors\<close>

text \<open>
  Every \<^verbatim>\<open>throw\<close> of the source is a value.  The spend-limit error keeps what its message
  interpolates: the label of the limit, the current spend, the reserved spend, the planned
  addition and the limit (the source prints each amount with \<^verbatim>\<open>toFixed(3)\<close>).
  \<open>GeminiHttpError\<close> carries message and HTTP status; \<open>Error\<close> is a plain \<^verbatim>\<open>Error\<close> or any
  other exception; \<open>StorageError\<close> is an exception of the SQLite driver or the file system.
\<close>

datatype error =
    SpendLimitError string rat rat rat jsnum
  | GeminiHttpError string int
  | Error string
  | StorageError string

definition assertSingleLimit ::
  "string \<Rightarrow> jsnum option \<Rightarrow> rat \<Rightarrow> rat \<Rightarrow> rat \<Rightarrow> error + unit" where
  "assertSingleLimit label configuredLimit currentSpent reservedQueueCost additionalCost =
     (case configuredLimit of
        None \<Rightarrow> Inr ()
      | Some limit \<Rightarrow>
          (let projected = currentSpent + reservedQueueCost + additionalCost
           in if js_le (Fin projected) limit then Inr ()
              else Inl (SpendLimitError label currentSpent reservedQueueCost additionalCost limit)))"

text \<open>
  \<^verbatim>\<open>formatUsd\<close>: a dollar sign and \<^verbatim>\<open>value.toFixed(3)\<close>.  From \<open>10^21\<close> on the source prints
  scientific notation; that branch is outside the amounts the model is used with and
  prints the integer part only.
\<close>

definition digit_char :: "nat \<Rightarrow> char" where
  "digit_char d = ''0123456789'' ! d"

fun string_of_nat :: "nat \<Rightarrow> string" where
  "string_of_nat n =
     (if n < 10 then [digit_char n]
      else string_of_nat (n div 10) @ [digit_char (n mod 10)])"

definition pad3 :: "nat \<Rightarrow> string" where
  "pad3 n = (let s = string_of_nat n in replicate (3 - length s) CHR ''0'' @ s)"

definition toFixed3_string :: "rat \<Rightarrow> string" where
  "toFixed3_string x =
     (let a = \<bar>x\<bar>; sign = (if x < 0 then ''-'' else '''')
      in if 10 ^ 21 \<le> a then sign @ string_of_nat (nat \<lfloor>a\<rfloor>)
         else (let n = nat \<lfloor>a * 1000 + 1 / 2\<rfloor>
               in sign @ string_of_nat (n div 1000) @ ''.'' @ pad3 (n mod 1000)))"

fun formatUsd :: "jsnum \<Rightarrow> string" where
  "formatUsd (Fin x) = ''$'' @ toFixed3_string x"
| "formatUsd NaN = ''$NaN''"
| "formatUsd PosInfinity = ''$Infinity''"
| "formatUsd NegInfinity = ''$-Infinity''"

text \<open>The \<^verbatim>\<open>message\<close> of an error, as the queue stores it on a failed job.\<close>

fun error_message :: "error \<Rightarrow> string" where
  "error_message (SpendLimitError label currentSpent reservedQueueCost additionalCost limit) =
     label @ '' erreicht: Aktuell '' @ formatUsd (Fin currentSpent)
       @ '', reserviert '' @ formatUsd (Fin reservedQueueCost)
       @ '', geplanter Auftrag '' @ formatUsd (Fin additionalCost)
       @ '', Limit '' @ formatUsd limit
       @ ''. Passe das Limit in den Einstellungen an.''"
| "error_message (GeminiHttpError message status) = message"
| "error_message (Error message) = message"
| "error_message (StorageError message) = message"

section \<open>The durable store\<close>

text \<open>
  A generation request, with the fields the modelled functions read or write (aspect
  ratio, thinking level, search flag and response modalities are carried along untouched
  by the source and left out).  \<open>None\<close> is an absent field.
\<close>

record ReferenceImagePayload =
  ref_name :: string
  ref_mimeType :: string
  ref_dataBase64 :: string
  ref_label :: "string option"

record GenerationRequest =
  rq_model :: string
  rq_prompt :: string
  rq_systemPrompt :: "string option"
  rq_referenceImages :: "ReferenceImagePayload list option"
  rq_resolution :: "string option"
  rq_batchCount :: "int option"
  rq_parentId :: "string option"
  rq_projectId :: "string option"

datatype QueueStatus = Pending | Running | Completed | Failed | Cancelled

text \<open>
  A row of \<^verbatim>\<open>queue_jobs\<close>.  The request column holds the request itself (the source stores
  its JSON text and parses it back); timestamps are seconds.
\<close>

record QueueJob =
  job_id :: string
  job_status :: QueueStatus
  job_request :: GenerationRequest
  job_resultId :: "string option"
  job_error :: "string option"
  job_priority :: int
  job_createdAt :: nat
  job_startedAt :: "nat option"
  job_completedAt :: "nat option"

record UsageLogRow =
  ul_id :: string
  ul_model :: string
  ul_resolution :: "string option"
  ul_costEstimate :: "rat option"
  ul_tokensIn :: "int option"
  ul_tokensOut :: "int option"
  ul_createdAt :: nat

record ImageRow =
  img_id :: string
  img_projectId :: "string option"
  img_prompt :: string
  img_model :: string
  img_resolution :: "string option"
  img_modelText :: "string option"
  img_filePath :: string
  img_thumbPath :: "string option"
  img_width :: "nat option"
  img_height :: "nat option"
  img_fileSize :: "nat option"
  img_parentId :: "string option"
  img_generationMs :: "int option"
  img_costEstimate :: "rat option"
  img_deletedAt :: "nat option"

record ReferenceImageRow =
  rr_id :: string
  rr_imageId :: string
  rr_filePath :: string
  rr_label :: "string option"
  rr_position :: nat

text \<open>
  What SQLite reads from its clock during a statement: \<^verbatim>\<open>CURRENT_TIMESTAMP\<close>,
  \<^verbatim>\<open>datetime('now', '-1 day')\<close> and \<^verbatim>\<open>datetime('now', '-1 month')\<close>.
\<close>

record SqlClock =
  CURRENT_TIMESTAMP :: nat
  now_minus_1_day :: nat
  now_minus_1_month :: nat

text \<open>The database: each table is the list of its rows in insertion order.\<close>

record StudioDatabase =
  queue_jobs :: "QueueJob list"
  usage_log :: "UsageLogRow list"
  images :: "ImageRow list"
  reference_images :: "ReferenceImageRow list"
  sql_clock :: SqlClock

text \<open>An \<^verbatim>\<open>INSERT\<close> fails on a primary key that is already there.\<close>

definition insertQueueJob ::
  "string \<Rightarrow> QueueStatus \<Rightarrow> GenerationRequest \<Rightarrow> int \<Rightarrow> StudioDatabase \<Rightarrow> error + StudioDatabase" where
  "insertQueueJob jid status request priority db =
     (if jid \<in> set (map job_id (queue_jobs db))
      then Inl (StorageError ''UNIQUE constraint failed: queue_jobs.id'')
      else Inr (db\<lparr>queue_jobs := queue_jobs db @
             [\<lparr>job_id = jid, job_status = status, job_request = request,
               job_resultId = None, job_error = None, job_priority = priority,
               job_createdAt = CURRENT_TIMESTAMP (sql_clock db),
               job_startedAt = None, job_completedAt = None\<rparr>]\<rparr>))"

definition listOpenQueueJobs :: "StudioDatabase \<Rightarrow> QueueJob list" where
  "listOpenQueueJobs db =
     rev (sort_key job_createdAt
       (filter (\<lambda>j. job_status j = Pending \<or> job_status j = Running) (queue_jobs db)))"

text \<open>
  \<^verbatim>\<open>ORDER BY priority DESC, created_at ASC LIMIT 1\<close> over the pending rows; among rows equal
  in both keys the earliest inserted one is taken.
\<close>

definition dispatched_before :: "QueueJob \<Rightarrow> QueueJob \<Rightarrow> bool" where
  "dispatched_before a b \<longleftrightarrow>
     job_priority a > job_priority b
     \<or> (job_priority a = job_priority b \<and> job_createdAt a < job_createdAt b)"

fun first_in_order :: "QueueJob list \<Rightarrow> QueueJob option" where
  "first_in_order [] = None"
| "first_in_order (j # js) =
     (case first_in_order js of
        None \<Rightarrow> Some j
      | Some k \<Rightarrow> if dispatched_before k j then Some k else Some j)"

definition getNextPendingJob :: "StudioDatabase \<Rightarrow> QueueJob option" where
  "getNextPendingJob db = first_in_order (filter (\<lambda>j. job_status j = Pending) (queue_jobs db))"

definition getQueueJobById :: "StudioDatabase \<Rightarrow> string \<Rightarrow> QueueJob option" where
  "getQueueJobById db jobId = find (\<lambda>j. job_id j = jobId) (queue_jobs db)"

definition markQueueJobRunning :: "string \<Rightarrow> StudioDatabase \<Rightarrow> StudioDatabase" where
  "markQueueJobRunning jobId db =
     db\<lparr>queue_jobs := map (\<lambda>j. if job_id j = jobId
         then j\<lparr>job_status := Running, job_startedAt := Some (CURRENT_TIMESTAMP (sql_clock db))\<rparr>
         else j) (queue_jobs db)\<rparr>"


definition markQueueJobFailed :: "string \<Rightarrow> string \<Rightarrow> StudioDatabase \<Rightarrow> StudioDatabase" where
  "markQueueJobFailed jobId err db =
     db\<lparr>queue_jobs := map (\<lambda>j. if job_id j = jobId
         then j\<lparr>job_status := Failed, job_error := Some err,
                job_completedAt := Some (CURRENT_TIMESTAMP (sql_clock db))\<rparr>
         else j) (queue_jobs db)\<rparr>"

definition markQueueJobCancelled :: "string \<Rightarrow> StudioDatabase \<Rightarrow> StudioDatabase" where
  "markQueueJobCancelled jobId db =
     db\<lparr>queue_jobs := map (\<lambda>j. if job_id j = jobId \<and> job_status j = Pending
         then j\<lparr>job_status := Cancelled,
                job_completedAt := Some (CURRENT_TIMESTAMP (sql_clock db))\<rparr>
         else j) (queue_jobs db)\<rparr>"

text \<open>\<^verbatim>\<open>requeueRunningJobs\<close> returns the number of rows it changed.\<close>

definition requeueRunningJobs :: "StudioDatabase \<Rightarrow> nat \<times> StudioDatabase" where
  "requeueRunningJobs db =
     (length (filter (\<lambda>j. job_status j = Running) (queue_jobs db)),
      db\<lparr>queue_jobs := map (\<lambda>j. if job_status j = Running
         then j\<lparr>job_status := Pending, job_startedAt := None, job_completedAt := None,
                job_error := None\<rparr>
         else j) (queue_jobs db)\<rparr>)"


datatype CostWindow = WindowDay | WindowMonth | WindowAll

text \<open>\<^verbatim>\<open>COALESCE(SUM(cost_estimate), 0)\<close> over the rows of the window; \<^verbatim>\<open>SUM\<close> skips NULL.\<close>

definition in_window :: "StudioDatabase \<Rightarrow> CostWindow \<Rightarrow> UsageLogRow \<Rightarrow> bool" where
  "in_window db w r =
     (case w of
        WindowDay \<Rightarrow> now_minus_1_day (sql_clock db) \<le> ul_createdAt r
      | WindowMonth \<Rightarrow> now_minus_1_month (sql_clock db) \<le> ul_createdAt r
      | WindowAll \<Rightarrow> True)"

definition getSessionCost :: "StudioDatabase \<Rightarrow> CostWindow \<Rightarrow> rat" where
  "getSessionCost db w =
     sum_list (map (\<lambda>r. case ul_costEstimate r of None \<Rightarrow> 0 | Some c \<Rightarrow> c)
       (filter (in_window db w) (usage_log db)))"

section \<open>The generation queue\<close>

text \<open>
  The scheduler's fields.  Concurrency and in-flight count are integers: the constructor
  and \<^verbatim>\<open>setConcurrency\<close> store what \<^verbatim>\<open>clampConcurrency\<close> returns.  Event emission has no
  effect on the state and is left out.
\<close>

record GenerationQueue =
  database :: StudioDatabase
  configStore :: StudioConfigFile
  activeRuns :: int
  paused :: bool
  concurrency :: int

definition MAX_BATCH_COUNT :: int where
  "MAX_BATCH_COUNT = 4"

text \<open>\<^verbatim>\<open>clampConcurrency\<close> on a finite number.\<close>

definition clampConcurrency :: "rat \<Rightarrow> int" where
  "clampConcurrency v = min 8 (max 1 \<lfloor>v\<rfloor>)"

definition estimateCost :: "string option \<Rightarrow> rat" where
  "estimateCost resolution = (if resolution = Some ''4K'' then 24 / 100 else 134 / 1000)"

text \<open>
  \<^verbatim>\<open>getReservedQueueCost\<close>: the \<^verbatim>\<open>reduce\<close> over the open jobs.  The excluded id counts
  only when it is present and not the empty string.
\<close>

definition getReservedQueueCost :: "string option \<Rightarrow> StudioDatabase \<Rightarrow> rat" where
  "getReservedQueueCost excludeQueueJobId db =
     foldl (\<lambda>sum job.
         if excludeQueueJobId \<noteq> None \<and> excludeQueueJobId \<noteq> Some []
            \<and> Some (job_id job) = excludeQueueJobId
         then sum
         else sum + estimateCost (rq_resolution (job_request job)))
       0 (listOpenQueueJobs db)"

definition assertSpendWithinLimits ::
  "rat \<Rightarrow> string option \<Rightarrow> GenerationQueue \<Rightarrow> error + unit" where
  "assertSpendWithinLimits estimatedAdditionalCost excludeQueueJobId q =
     (if estimatedAdditionalCost \<le> 0 then Inr ()
      else
        (let reservedQueueCost = getReservedQueueCost excludeQueueJobId (database q);
             config = getPublicConfig (configStore q)
         in case assertSingleLimit ''Monatslimit'' (pub_monthlySpendLimitUsd config)
                  (getSessionCost (database q) WindowMonth) reservedQueueCost
                  estimatedAdditionalCost of
              Inl e \<Rightarrow> Inl e
            | Inr _ \<Rightarrow>
                assertSingleLimit ''Gesamtlimit'' (pub_totalSpendLimitUsd config)
                  (getSessionCost (database q) WindowAll) reservedQueueCost
                  estimatedAdditionalCost))"

text \<open>
  \<^verbatim>\<open>runJob\<close> runs in three segments.  The first is synchronous, inside the dispatch loop:
  \<open>runJob_claim\<close> counts the job in and marks it running, \<open>runJob_precheck\<close> is the part of the
  \<^verbatim>\<open>try\<close> block before the first \<^verbatim>\<open>await\<close> (API key, spend limits).  \<open>runJob_catch\<close> is the
  \<^verbatim>\<open>catch\<close> block.  The \<^verbatim>\<open>finally\<close> block counts the job out and calls \<^verbatim>\<open>kick\<close>.
\<close>

definition runJob_claim :: "QueueJob \<Rightarrow> GenerationQueue \<Rightarrow> GenerationQueue" where
  "runJob_claim job q =
     q\<lparr>activeRuns := activeRuns q + 1,
       database := markQueueJobRunning (job_id job) (database q)\<rparr>"

definition runJob_precheck :: "QueueJob \<Rightarrow> GenerationQueue \<Rightarrow> error + rat" where
  "runJob_precheck job q =
     (if apiKey (configStore q) = None \<or> apiKey (configStore q) = Some []
      then Inl (Error ''Kein API-Schluessel konfiguriert. Oeffne die Einstellungen und hinterlege einen Schluessel.'')
      else
        (let costEstimate = estimateCost (rq_resolution (job_request job))
         in case assertSpendWithinLimits costEstimate (Some (job_id job)) q of
              Inl e \<Rightarrow> Inl e
            | Inr _ \<Rightarrow> Inr costEstimate))"

definition runJob_catch :: "QueueJob \<Rightarrow> string \<Rightarrow> GenerationQueue \<Rightarrow> GenerationQueue" where
  "runJob_catch job message q =
     q\<lparr>database := markQueueJobFailed (job_id job) message (database q)\<rparr>"

definition count_out :: "GenerationQueue \<Rightarrow> GenerationQueue" where
  "count_out q = q\<lparr>activeRuns := max 0 (activeRuns q - 1)\<rparr>"

definition pending_count :: "GenerationQueue \<Rightarrow> nat" where
  "pending_count q = length (filter (\<lambda>j. job_status j = Pending) (queue_jobs (database q)))"

text \<open>
  The \<^verbatim>\<open>while\<close> loop of \<^verbatim>\<open>kick\<close>.  A job whose synchronous segment throws is failed
  and counted out at once, and its \<^verbatim>\<open>finally\<close> block calls \<^verbatim>\<open>kick\<close> from inside the loop:
  the inner call is the nested recursion below.
\<close>

function kick_loop :: "GenerationQueue \<Rightarrow> GenerationQueue" where
  "kick_loop q =
     (if activeRuns q < concurrency q then
        (case getNextPendingJob (database q) of
           None \<Rightarrow> q
         | Some nextJob \<Rightarrow>
             (case runJob_precheck nextJob (runJob_claim nextJob q) of
                Inl e \<Rightarrow>
                  kick_loop
                    (let q' = count_out (runJob_catch nextJob (error_message e)
                                (runJob_claim nextJob q))
                     in if paused q' then q' else kick_loop q')
              | Inr _ \<Rightarrow> kick_loop (runJob_claim nextJob q)))
      else q)"
  by pat_completeness auto

text \<open>
  Each pass of the loop takes one job out of the pending ones, which is why the loop ends.
\<close>

lemma first_in_order_mem: "first_in_order js = Some j \<Longrightarrow> j \<in> set js"
  by (induction js arbitrary: j) (auto split: option.splits if_splits)

lemma getNextPendingJob_pending:
  "getNextPendingJob db = Some j \<Longrightarrow> j \<in> set (queue_jobs db) \<and> job_status j = Pending"
  unfolding getNextPendingJob_def by (drule first_in_order_mem) simp

lemma pending_after_running_le:
  "length (filter (\<lambda>j. job_status j = Pending)
     (map (\<lambda>j. if job_id j = i then j\<lparr>job_status := Running, job_startedAt := t\<rparr> else j) js))
   \<le> length (filter (\<lambda>j. job_status j = Pending) js)"
  by (induction js) auto

lemma pending_after_running_less:
  "j \<in> set js \<Longrightarrow> job_status j = Pending \<Longrightarrow>
   length (filter (\<lambda>j. job_status j = Pending)
     (map (\<lambda>k. if job_id k = job_id j then k\<lparr>job_status := Running, job_startedAt := t\<rparr> else k) js))
   < length (filter (\<lambda>j. job_status j = Pending) js)"
proof (induction js)
  case Nil
  then show ?case by simp
next
  case (Cons a js)
  show ?case
  proof (cases "a = j")
    case True
    with Cons.prems pending_after_running_le [of "job_id j" t js] show ?thesis
      by (simp add: less_Suc_eq_le)
  next
    case False
    with Cons have "j \<in> set js" by simp
    from Cons.IH [OF this Cons.prems(2)] show ?thesis by auto
  qed
qed

lemma pending_after_failed_le:
  "length (filter (\<lambda>j. job_status j = Pending)
     (map (\<lambda>j. if job_id j = i then j\<lparr>job_status := Failed, job_error := e, job_completedAt := t\<rparr> else j) js))
   \<le> length (filter (\<lambda>j. job_status j = Pending) js)"
  by (induction js) auto

lemma pending_count_claim:
  "getNextPendingJob (database q) = Some j \<Longrightarrow> pending_count (runJob_claim j q) < pending_count q"
  using pending_after_running_less [of j "queue_jobs (database q)"]
  by (auto simp: pending_count_def runJob_claim_def markQueueJobRunning_def
      dest!: getNextPendingJob_pending)

lemma pending_count_catch: "pending_count (runJob_catch j m q) \<le> pending_count q"
  using pending_after_failed_le [of "job_id j" _ _ "queue_jobs (database q)"]
  by (simp add: pending_count_def runJob_catch_def markQueueJobFailed_def)

lemma pending_count_count_out [simp]: "pending_count (count_out q) = pending_count q"
  by (simp add: pending_count_def count_out_def)

lemma kick_loop_pending_le:
  "kick_loop_dom q \<Longrightarrow> pending_count (kick_loop q) \<le> pending_count q"
proof (induction q rule: kick_loop.pinduct)
  case (1 q)
  show ?case
  proof (cases "activeRuns q < concurrency q")
    case False
    with 1(1) show ?thesis by (simp add: kick_loop.psimps)
  next
    case lt: True
    show ?thesis
    proof (cases "getNextPendingJob (database q)")
      case None
      with lt 1(1) show ?thesis by (simp add: kick_loop.psimps)
    next
      case (Some j)
      note cl = pending_count_claim [OF Some]
      show ?thesis
      proof (cases "runJob_precheck j (runJob_claim j q)")
        case (Inr c)
        from "1.IH"(3) [OF lt Some Inr] cl
        show ?thesis using lt Some Inr 1(1) by (simp add: kick_loop.psimps)
      next
        case (Inl e)
        define q' where "q' = count_out (runJob_catch j (error_message e) (runJob_claim j q))"
        have q'le: "pending_count q' < pending_count q"
          using cl pending_count_catch [of j "error_message e" "runJob_claim j q"]
          by (simp add: q'_def)
        have unf: "kick_loop q = kick_loop (if paused q' then q' else kick_loop q')"
          using lt Some Inl 1(1) by (simp add: kick_loop.psimps q'_def Let_def)
        show ?thesis
        proof (cases "paused q'")
          case True
          have "pending_count (kick_loop q') \<le> pending_count q'"
            using "1.IH"(2) [OF lt Some Inl] True by (simp add: q'_def Let_def)
          with q'le unf True show ?thesis by simp
        next
          case False
          have "pending_count (kick_loop q') \<le> pending_count q'"
            using "1.IH"(1) [OF lt Some Inl q'_def False] .
          moreover have "pending_count (kick_loop (kick_loop q')) \<le> pending_count (kick_loop q')"
            using "1.IH"(2) [OF lt Some Inl] False by (simp add: q'_def Let_def)
          ultimately show ?thesis using q'le unf False by simp
        qed
      qed
    qed
  qed
qed

termination kick_loop
proof (relation "measure pending_count")
  show "wf (measure pending_count)" by simp
next
  fix q :: GenerationQueue and j e q'
  assume "activeRuns q < concurrency q" "getNextPendingJob (database q) = Some j"
    "runJob_precheck j (runJob_claim j q) = Inl e"
    "q' = count_out (runJob_catch j (error_message e) (runJob_claim j q))" "\<not> paused q'"
  then show "(q', q) \<in> measure pending_count"
    using pending_count_claim [of q j] pending_count_catch [of j "error_message e" "runJob_claim j q"]
    by simp
next
  fix q :: GenerationQueue and j e
  assume a: "activeRuns q < concurrency q" "getNextPendingJob (database q) = Some j"
    "runJob_precheck j (runJob_claim j q) = Inl e"
    and dom: "\<And>q'. q' = count_out (runJob_catch j (error_message e) (runJob_claim j q)) \<Longrightarrow> \<not> paused q' \<Longrightarrow> kick_loop_dom q'"
  define q' where "q' = count_out (runJob_catch j (error_message e) (runJob_claim j q))"
  have lt: "pending_count q' < pending_count q"
    using pending_count_claim [OF a(2)] pending_count_catch [of j "error_message e" "runJob_claim j q"]
    by (simp add: q'_def)
  have "pending_count (if paused q' then q' else kick_loop q') \<le> pending_count q'"
  proof (cases "paused q'")
    case True
    then show ?thesis by simp
  next
    case False
    with kick_loop_pending_le [OF dom [OF q'_def False]] show ?thesis by simp
  qed
  with lt have "pending_count (if paused q' then q' else kick_loop q') < pending_count q"
    by simp
  then show "(let q' = count_out (runJob_catch j (error_message e) (runJob_claim j q))
        in if paused q' then q' else kick_loop q', q) \<in> measure pending_count"
    unfolding q'_def Let_def by simp
next
  fix q :: GenerationQueue and j
  assume "activeRuns q < concurrency q" "getNextPendingJob (database q) = Some j"
  then show "(runJob_claim j q, q) \<in> measure pending_count"
    using pending_count_claim [of q j] by simp
qed

declare kick_loop.simps [simp del]

definition kick :: "GenerationQueue \<Rightarrow> GenerationQueue" where
  "kick q = (if paused q then q else kick_loop q)"





text \<open>The constructor: clamp, requeue, kick.\<close>

definition GenerationQueue_new ::
  "StudioDatabase \<Rightarrow> StudioConfigFile \<Rightarrow> rat \<Rightarrow> GenerationQueue" where
  "GenerationQueue_new db config c =
     kick \<lparr>database = snd (requeueRunningJobs db), configStore = config, activeRuns = 0,
           paused = False, concurrency = clampConcurrency c\<rparr>"




definition cancel :: "string \<Rightarrow> GenerationQueue \<Rightarrow> bool \<times> GenerationQueue" where
  "cancel jobId q =
     (case getQueueJobById (database q) jobId of
        None \<Rightarrow> (False, q)
      | Some job \<Rightarrow>
          if job_status job \<noteq> Pending then (False, q)
          else (True, q\<lparr>database := markQueueJobCancelled jobId (database q)\<rparr>))"

text \<open>
  The insertion loop of \<^verbatim>\<open>enqueue\<close>.  \<open>uuidv4 i\<close> is the id drawn in pass \<open>i\<close>.  An insert
  that throws leaves the loop with the rows inserted so far in place.
\<close>

function enqueue_loop ::
  "(nat \<Rightarrow> string) \<Rightarrow> GenerationRequest \<Rightarrow> int \<Rightarrow> int \<Rightarrow> string list \<Rightarrow> StudioDatabase
    \<Rightarrow> (error + string list) \<times> StudioDatabase" where
  "enqueue_loop uuidv4 request batchCount i queuedJobIds db =
     (if i < batchCount then
        (let jobId = uuidv4 (nat i)
         in case insertQueueJob jobId Pending (request\<lparr>rq_batchCount := Some 1\<rparr>) 0 db of
              Inl e \<Rightarrow> (Inl e, db)
            | Inr db' \<Rightarrow> enqueue_loop uuidv4 request batchCount (i + 1) (queuedJobIds @ [jobId]) db')
      else (Inr queuedJobIds, db))"
  by pat_completeness auto
termination
  by (relation "measure (\<lambda>(uuidv4, request, batchCount, i, queuedJobIds, db). nat (batchCount - i))") auto

declare enqueue_loop.simps [simp del]

text \<open>
  \<^verbatim>\<open>enqueue\<close>.  The batch count is an integer, as the request boundary admits it; the
  result is the list of queued ids or the error thrown, with the queue as it is left.
\<close>

definition enqueue ::
  "(nat \<Rightarrow> string) \<Rightarrow> GenerationRequest \<Rightarrow> GenerationQueue
    \<Rightarrow> (error + string list) \<times> GenerationQueue" where
  "enqueue uuidv4 request q =
     (let requestedBatchCount = (case rq_batchCount request of None \<Rightarrow> 1 | Some n \<Rightarrow> n);
          batchCount = min MAX_BATCH_COUNT (max 1 requestedBatchCount);
          estimatedBatchCost = estimateCost (rq_resolution request) * of_int batchCount
      in case assertSpendWithinLimits estimatedBatchCost None q of
           Inl e \<Rightarrow> (Inl e, q)
         | Inr _ \<Rightarrow>
             (case enqueue_loop uuidv4 request batchCount 0 [] (database q) of
                (Inl e, db') \<Rightarrow> (Inl e, q\<lparr>database := db'\<rparr>)
              | (Inr queuedJobIds, db') \<Rightarrow> (Inr queuedJobIds, kick (q\<lparr>database := db'\<rparr>))))"

text \<open>
  The number of rows in \<^verbatim>\<open>running\<close> state, and the bookkeeping the scheduler relies on: job
  ids are unique (the primary key) and the in-flight counter equals the number of running
  rows.
\<close>

definition running_count :: "GenerationQueue \<Rightarrow> nat" where
  "running_count q = length (filter (\<lambda>j. job_status j = Running) (queue_jobs (database q)))"

definition sched_inv :: "GenerationQueue \<Rightarrow> bool" where
  "sched_inv q \<longleftrightarrow>
     distinct (map job_id (queue_jobs (database q))) \<and> activeRuns q = int (running_count q)"




text \<open>
  What a run of the dispatch loop leaves as it is, and the bound on what it starts: no more
  rows are running afterwards than before or than the limit allows.
\<close>

definition kick_rel :: "GenerationQueue \<Rightarrow> GenerationQueue \<Rightarrow> bool" where
  "kick_rel q q' \<longleftrightarrow>
     concurrency q' = concurrency q \<and> paused q' = paused q \<and> configStore q' = configStore q
     \<and> map job_id (queue_jobs (database q')) = map job_id (queue_jobs (database q))
     \<and> map job_request (queue_jobs (database q')) = map job_request (queue_jobs (database q))
     \<and> usage_log (database q') = usage_log (database q)
     \<and> images (database q') = images (database q)
     \<and> running_count q' \<le> max (running_count q) (nat (concurrency q))"


text \<open>The row \<^verbatim>\<open>enqueue\<close> inserts for one unit of a batch.\<close>

definition pending_row :: "StudioDatabase \<Rightarrow> GenerationRequest \<Rightarrow> string \<Rightarrow> QueueJob" where
  "pending_row db request jid =
     \<lparr>job_id = jid, job_status = Pending, job_request = request\<lparr>rq_batchCount := Some 1\<rparr>,
      job_resultId = None, job_error = None, job_priority = 0,
      job_createdAt = CURRENT_TIMESTAMP (sql_clock db),
      job_startedAt = None, job_completedAt = None\<rparr>"



text \<open>
  The quantities the admission rule is stated with: the normalised batch count of a
  request, the estimated cost of the batch, the estimated cost of all open (pending or
  running) jobs, and what it means for an amount to exceed a ceiling (\<open>None\<close>: unset).
\<close>

definition batch_count :: "GenerationRequest \<Rightarrow> int" where
  "batch_count request =
     min MAX_BATCH_COUNT (max 1 (case rq_batchCount request of None \<Rightarrow> 1 | Some n \<Rightarrow> n))"

definition batch_cost :: "GenerationRequest \<Rightarrow> rat" where
  "batch_cost request = estimateCost (rq_resolution request) * of_int (batch_count request)"

definition reserved_open_cost :: "StudioDatabase \<Rightarrow> rat" where
  "reserved_open_cost db =
     sum_list (map (\<lambda>j. estimateCost (rq_resolution (job_request j)))
       (filter (\<lambda>j. job_status j = Pending \<or> job_status j = Running) (queue_jobs db)))"

definition exceeds :: "rat \<Rightarrow> jsnum option \<Rightarrow> bool" where
  "exceeds amount cap = (case cap of Some (Fin l) \<Rightarrow> l < amount | _ \<Rightarrow> False)"

definition is_spend_limit_error :: "error + 'a \<Rightarrow> bool" where
  "is_spend_limit_error r = (case r of Inl (SpendLimitError _ _ _ _ _) \<Rightarrow> True | _ \<Rightarrow> False)"



text \<open>
  Confirmed spend of the window, plus the cost reserved by the open jobs, plus the cost of
  the new batch.
\<close>

definition projected :: "GenerationQueue \<Rightarrow> CostWindow \<Rightarrow> GenerationRequest \<Rightarrow> rat" where
  "projected q w request =
     getSessionCost (database q) w + reserved_open_cost (database q) + batch_cost request"

section \<open>The remote generation client\<close>

text \<open>
  A parsed JSON value.  \<^verbatim>\<open>asRecord\<close> lets every non-null object through, arrays included;
  reading a named property of an array yields \<^verbatim>\<open>undefined\<close> (\<open>None\<close>), as no property read
  by the client is an index or \<^verbatim>\<open>length\<close>.
\<close>

datatype json =
    JNull
  | JBool bool
  | JNumber rat
  | JString string
  | JArray "json list"
  | JObject "(string \<times> json) list"

fun asRecord :: "json option \<Rightarrow> json option" where
  "asRecord (Some (JObject kvs)) = Some (JObject kvs)"
| "asRecord (Some (JArray xs)) = Some (JArray xs)"
| "asRecord _ = None"

fun get_prop :: "json \<Rightarrow> string \<Rightarrow> json option" where
  "get_prop (JObject kvs) key = map_of kvs key"
| "get_prop _ key = None"

definition asRecordArray :: "json option \<Rightarrow> json list" where
  "asRecordArray v =
     (case v of
        Some (JArray xs) \<Rightarrow> List.map_filter (\<lambda>entry. asRecord (Some entry)) xs
      | _ \<Rightarrow> [])"

text \<open>\<^verbatim>\<open>trim\<close> on a string of single-byte characters.\<close>

definition is_space :: "char \<Rightarrow> bool" where
  "is_space c \<longleftrightarrow> c \<in> set [CHR '' '', CHR 0x09, CHR 0x0A, CHR 0x0B, CHR 0x0C, CHR 0x0D]"

definition trim :: "string \<Rightarrow> string" where
  "trim s = rev (dropWhile is_space (rev (dropWhile is_space s)))"

record GeminiImagePart =
  part_mimeType :: string
  part_dataBase64 :: string

text \<open>
  The result of a generation; the token usage of the response is left out of the model.
\<close>

record GeminiGenerationResult =
  res_images :: "GeminiImagePart list"
  res_modelText :: "string option"
  res_attempts :: nat

definition extractCandidateParts :: "json \<Rightarrow> json list" where
  "extractCandidateParts body =
     (case asRecordArray (get_prop body ''candidates'') of
        [] \<Rightarrow> []
      | firstCandidate # _ \<Rightarrow>
          (case asRecord (get_prop firstCandidate ''content'') of
             None \<Rightarrow> []
           | Some content \<Rightarrow> asRecordArray (get_prop content ''parts'')))"

definition extractInlineData :: "json \<Rightarrow> GeminiImagePart option" where
  "extractInlineData part =
     (case (case asRecord (get_prop part ''inlineData'') of
              Some r \<Rightarrow> Some r
            | None \<Rightarrow> asRecord (get_prop part ''inline_data'')) of
        None \<Rightarrow> None
      | Some inlineData \<Rightarrow>
          (case get_prop inlineData ''data'' of
             Some (JString d) \<Rightarrow>
               if trim d = [] then None
               else Some \<lparr>part_mimeType =
                       (case get_prop inlineData ''mimeType'' of
                          Some (JString m) \<Rightarrow> m
                        | _ \<Rightarrow> (case get_prop inlineData ''mime_type'' of
                                   Some (JString m) \<Rightarrow> m
                                 | _ \<Rightarrow> ''image/png'')),
                     part_dataBase64 = d\<rparr>
           | _ \<Rightarrow> None))"

definition part_text :: "json \<Rightarrow> string option" where
  "part_text part =
     (case get_prop part ''text'' of
        Some (JString t) \<Rightarrow> if trim t = [] then None else Some (trim t)
      | _ \<Rightarrow> None)"

fun join :: "string \<Rightarrow> string list \<Rightarrow> string" where
  "join sep [] = []"
| "join sep [x] = x"
| "join sep (x # y # ys) = x @ sep @ join sep (y # ys)"

text \<open>The images and text parts the loop over the response parts collects.\<close>

definition response_images :: "json \<Rightarrow> GeminiImagePart list" where
  "response_images body = List.map_filter extractInlineData (extractCandidateParts body)"

definition response_texts :: "json \<Rightarrow> string list" where
  "response_texts body = List.map_filter part_text (extractCandidateParts body)"

text \<open>
  What one \<^verbatim>\<open>fetch\<close> under the timeout yields: the timeout, another rejection (network), or
  a response with its status and its body (\<open>None\<close> when the body is not JSON).
\<close>

datatype FetchOutcome =
    TimedOut
  | Rejected string
  | Response int "json option"

definition response_ok :: "int \<Rightarrow> bool" where
  "response_ok status \<longleftrightarrow> 200 \<le> status \<and> status \<le> 299"

definition readErrorMessage :: "int \<Rightarrow> json option \<Rightarrow> string" where
  "readErrorMessage status body =
     (case (case asRecord body of
              None \<Rightarrow> None
            | Some b \<Rightarrow> (case asRecord (get_prop b ''error'') of
                          None \<Rightarrow> None
                        | Some e \<Rightarrow> (case get_prop e ''message'' of
                                      Some (JString m) \<Rightarrow> Some m
                                    | _ \<Rightarrow> None))) of
        Some message \<Rightarrow> message
      | None \<Rightarrow> ''Gemini API request failed with '' @ string_of_nat (nat status))"

definition MAX_RETRIES :: nat where
  "MAX_RETRIES = 3"

definition RETRY_BASE_DELAY_MS :: nat where
  "RETRY_BASE_DELAY_MS = 800"

text \<open>\<^verbatim>\<open>asRecord(await response.json()) ?? {}\<close>.\<close>

definition body_record :: "json \<Rightarrow> json" where
  "body_record v = (case asRecord (Some v) of Some b \<Rightarrow> b | None \<Rightarrow> JObject [])"

definition NO_IMAGE_MESSAGE :: string where
  "NO_IMAGE_MESSAGE = ''Gemini hat fuer diese Anfrage keine Bild-Payload geliefert.''"

text \<open>
  \<^verbatim>\<open>generateOnce\<close>, given what its \<^verbatim>\<open>fetch\<close> yields.  A body that is not JSON makes
  \<^verbatim>\<open>response.json()\<close> throw a syntax error.
\<close>

definition generateOnce :: "FetchOutcome \<Rightarrow> error + GeminiGenerationResult" where
  "generateOnce outcome =
     (case outcome of
        TimedOut \<Rightarrow> Inl (GeminiHttpError ''Gemini API request timed out after 120 seconds.'' 504)
      | Rejected message \<Rightarrow> Inl (Error message)
      | Response status parsed \<Rightarrow>
          if \<not> response_ok status
          then Inl (GeminiHttpError (readErrorMessage status parsed) status)
          else
            (case parsed of
               None \<Rightarrow> Inl (Error ''Unexpected token in JSON'')
             | Some value \<Rightarrow>
                 (let body = body_record value;
                      images = response_images body;
                      textParts = response_texts body
                  in if length images = 0
                     then Inl (Error NO_IMAGE_MESSAGE)
                     else Inr \<lparr>res_images = images,
                               res_modelText = (if length textParts > 0
                                                then Some (join [CHR 0x0A, CHR 0x0A] textParts)
                                                else None),
                               res_attempts = 0\<rparr>)))"

text \<open>\<^verbatim>\<open>error instanceof GeminiHttpError && error.isRetryable\<close>.\<close>

fun isRetryable :: "error \<Rightarrow> bool" where
  "isRetryable (GeminiHttpError message status) = (status = 429 \<or> status \<ge> 500)"
| "isRetryable _ = False"

text \<open>
  The retry loop of \<^verbatim>\<open>generate\<close>.  \<open>fetch k\<close> is what the fetch of attempt \<open>k\<close> yields; the
  second component of the result lists the delays waited, in milliseconds.
\<close>

function generate_loop ::
  "(nat \<Rightarrow> FetchOutcome) \<Rightarrow> nat \<Rightarrow> error option \<Rightarrow> nat list
    \<Rightarrow> (error + GeminiGenerationResult) \<times> nat list" where
  "generate_loop fetch attempts lastError waited =
     (if attempts < MAX_RETRIES then
        (case generateOnce (fetch (attempts + 1)) of
           Inr result \<Rightarrow> (Inr (result\<lparr>res_attempts := attempts + 1\<rparr>), waited)
         | Inl e \<Rightarrow>
             if \<not> isRetryable e \<or> attempts + 1 \<ge> MAX_RETRIES then (Inl e, waited)
             else generate_loop fetch (attempts + 1) (Some e)
                    (waited @ [RETRY_BASE_DELAY_MS * 2 ^ (attempts + 1 - 1)]))
      else
        (Inl (case lastError of
                Some e \<Rightarrow> e
              | None \<Rightarrow> Error ''Generierung fehlgeschlagen (ohne Details).''), waited))"
  by pat_completeness auto
termination
  by (relation "measure (\<lambda>(fetch, attempts, lastError, waited). MAX_RETRIES - attempts)") auto

declare generate_loop.simps [simp del]

definition generate :: "(nat \<Rightarrow> FetchOutcome) \<Rightarrow> (error + GeminiGenerationResult) \<times> nat list" where
  "generate fetch = generate_loop fetch 0 None []"

text \<open>An attempt that failed with a retryable error.\<close>

definition failed_retryably :: "error + GeminiGenerationResult \<Rightarrow> bool" where
  "failed_retryably r = (case r of Inl e \<Rightarrow> isRetryable e | Inr _ \<Rightarrow> False)"

section \<open>The artifact store\<close>


definition insertImage :: "ImageRow \<Rightarrow> error option \<Rightarrow> StudioDatabase \<Rightarrow> error + StudioDatabase" where
  "insertImage row fault db =
     (case fault of
        Some e \<Rightarrow> Inl e
      | None \<Rightarrow>
          if img_id row \<in> set (map img_id (images db))
          then Inl (StorageError ''UNIQUE constraint failed: images.id'')
          else Inr (db\<lparr>images := images db @ [row]\<rparr>))"

definition insertReferenceImage ::
  "ReferenceImageRow \<Rightarrow> error option \<Rightarrow> StudioDatabase \<Rightarrow> error + StudioDatabase" where
  "insertReferenceImage row fault db =
     (case fault of
        Some e \<Rightarrow> Inl e
      | None \<Rightarrow>
          if rr_id row \<in> set (map rr_id (reference_images db))
          then Inl (StorageError ''UNIQUE constraint failed: reference_images.id'')
          else Inr (db\<lparr>reference_images := reference_images db @ [row]\<rparr>))"

definition deleteImageHard :: "string \<Rightarrow> StudioDatabase \<Rightarrow> StudioDatabase" where
  "deleteImageHard imageId db = db\<lparr>images := filter (\<lambda>r. img_id r \<noteq> imageId) (images db)\<rparr>"

definition deleteReferenceImageById :: "string \<Rightarrow> StudioDatabase \<Rightarrow> StudioDatabase" where
  "deleteReferenceImageById referenceId db =
     db\<lparr>reference_images := filter (\<lambda>r. rr_id r \<noteq> referenceId) (reference_images db)\<rparr>"

definition deleteReferenceImagesByImageId :: "string \<Rightarrow> StudioDatabase \<Rightarrow> StudioDatabase" where
  "deleteReferenceImagesByImageId imageId db =
     db\<lparr>reference_images := filter (\<lambda>r. rr_imageId r \<noteq> imageId) (reference_images db)\<rparr>"

text \<open>
  The file system maps a path to the contents of the file there.  A write either
  completes, or fails with an error and leaves the file system as it was (\<open>None\<close>) or a
  partial file at the path (\<open>Some\<close> of what was written).  \<^verbatim>\<open>fs.rm\<close> with \<^verbatim>\<open>force\<close> removes the
  file if there is one; the source ignores its outcome.
\<close>

datatype WriteOutcome = Written | WriteFailed error "string option"

type_synonym files = "string \<rightharpoonup> string"

definition writeFile :: "string \<Rightarrow> string \<Rightarrow> WriteOutcome \<Rightarrow> files \<Rightarrow> (error + unit) \<times> files" where
  "writeFile path bytes outcome fs =
     (case outcome of
        Written \<Rightarrow> (Inr (), fs(path \<mapsto> bytes))
      | WriteFailed e None \<Rightarrow> (Inl e, fs)
      | WriteFailed e (Some partial) \<Rightarrow> (Inl e, fs(path \<mapsto> partial)))"

definition removeFileIfExists :: "string \<Rightarrow> files \<Rightarrow> files" where
  "removeFileIfExists targetPath fs = fs(targetPath := None)"

record ArtifactWorld =
  aw_database :: StudioDatabase
  aw_files :: files

text \<open>\<^verbatim>\<open>decodeBase64Payload\<close>; the Base64 decoder of the runtime is the parameter \<open>buffer_from\<close>.\<close>

definition MAX_REFERENCE_IMAGE_BYTES :: nat where
  "MAX_REFERENCE_IMAGE_BYTES = 20 * 1024 * 1024"

definition is_base64_char :: "char \<Rightarrow> bool" where
  "is_base64_char c \<longleftrightarrow>
     c \<in> set ''ABCDEFGHIJKLMNOPQRSTUVWXYZabcdefghijklmnopqrstuvwxyz0123456789+/''"

definition isLikelyBase64 :: "string \<Rightarrow> bool" where
  "isLikelyBase64 v \<longleftrightarrow>
     length v mod 4 = 0
     \<and> (let body = takeWhile (\<lambda>c. c \<noteq> CHR ''='') v; padding = dropWhile (\<lambda>c. c \<noteq> CHR ''='') v
        in body \<noteq> [] \<and> list_all is_base64_char body \<and> padding \<in> set ['''', ''='', ''==''])"

definition estimateBase64Bytes :: "string \<Rightarrow> nat" where
  "estimateBase64Bytes v =
     (let padding = (if suffix ''=='' v then 2 else if suffix ''='' v then 1 else 0)
      in (length v * 3) div 4 - padding)"

definition formatBytes :: "nat \<Rightarrow> string" where
  "formatBytes v =
     (let tenths = (v * 10 + 524288) div 1048576
      in string_of_nat (tenths div 10) @ ''.'' @ string_of_nat (tenths mod 10) @ '' MB'')"

definition decodeBase64Payload ::
  "(string \<Rightarrow> string) \<Rightarrow> string \<Rightarrow> string \<Rightarrow> nat option \<Rightarrow> error + string" where
  "decodeBase64Payload buffer_from v label maxBytes =
     (let normalized = filter (\<lambda>c. \<not> is_space c) v
      in if normalized = [] then Inl (Error (label @ '' ist leer.''))
         else if \<not> isLikelyBase64 normalized
         then Inl (Error (label @ '' hat kein gueltiges Base64-Format.''))
         else if (case maxBytes of None \<Rightarrow> False | Some m \<Rightarrow> estimateBase64Bytes normalized > m)
         then Inl (Error (label @ '' ist groesser als '' @ formatBytes (the maxBytes) @ ''.''))
         else
           (let bytes = buffer_from normalized
            in if length bytes = 0 then Inl (Error (label @ '' konnte nicht dekodiert werden.''))
               else if (case maxBytes of None \<Rightarrow> False | Some m \<Rightarrow> length bytes > m)
               then Inl (Error (label @ '' ist groesser als '' @ formatBytes (the maxBytes) @ ''.''))
               else Inr bytes))"

text \<open>
  What a run of \<^verbatim>\<open>persistGeneratedImage\<close> takes from outside: the ids drawn, the paths
  computed from them, and the outcome of every step that can fail.  For reference image
  \<open>i\<close> (counted from 0) these are in \<open>pe_ref i\<close>.
\<close>

record RefEnv =
  re_refId :: string
  re_relativePath :: string
  re_absolutePath :: string
  re_insideRoot :: bool
  re_write :: WriteOutcome
  re_insertFault :: "error option"

record PersistEnv =
  pe_buffer_from :: "string \<Rightarrow> string"
  pe_imageId :: string
  pe_absoluteOriginalPath :: string
  pe_relativeThumbPath :: string
  pe_absoluteThumbPath :: string
  pe_mkdirOriginal :: "error option"
  pe_mkdirThumb :: "error option"
  pe_writeOriginal :: WriteOutcome
  pe_metadata :: "error + nat option \<times> nat option"
  pe_thumbnailBytes :: string
  pe_writeThumb :: WriteOutcome
  pe_insertImageFault :: "error option"
  pe_ref :: "nat \<Rightarrow> RefEnv"

record PersistGeneratedImageInput =
  pi_request :: GenerationRequest
  pi_generated :: GeminiImagePart
  pi_modelText :: "string option"
  pi_generationMs :: int
  pi_costEstimate :: rat

text \<open>
  The loop of \<^verbatim>\<open>persistReferenceImages\<close> over the references from index \<open>index\<close> on.  It
  returns the error thrown, if any, with the ids inserted and the paths written so far.
\<close>

fun persistReferenceImages_loop ::
  "PersistEnv \<Rightarrow> string \<Rightarrow> ReferenceImagePayload list \<Rightarrow> nat \<Rightarrow> string list \<Rightarrow> string list
    \<Rightarrow> ArtifactWorld \<Rightarrow> error option \<times> string list \<times> string list \<times> ArtifactWorld" where
  "persistReferenceImages_loop env imageId [] index insertedReferenceIds writtenPaths w =
     (None, insertedReferenceIds, writtenPaths, w)"
| "persistReferenceImages_loop env imageId (ref # refs) index insertedReferenceIds writtenPaths w =
     (let re = pe_ref env index
      in if \<not> re_insideRoot re
         then (Some (Error ''Ungueltiger Referenzbild-Pfad.''), insertedReferenceIds, writtenPaths, w)
         else
           (case decodeBase64Payload (pe_buffer_from env) (ref_dataBase64 ref)
                   (''Referenzbild '' @ string_of_nat (index + 1)) (Some MAX_REFERENCE_IMAGE_BYTES) of
              Inl e \<Rightarrow> (Some e, insertedReferenceIds, writtenPaths, w)
            | Inr bytes \<Rightarrow>
                (case writeFile (re_absolutePath re) bytes (re_write re) (aw_files w) of
                   (Inl e, fs) \<Rightarrow> (Some e, insertedReferenceIds, writtenPaths, w\<lparr>aw_files := fs\<rparr>)
                 | (Inr _, fs) \<Rightarrow>
                     (case insertReferenceImage
                             \<lparr>rr_id = re_refId re, rr_imageId = imageId,
                              rr_filePath = re_relativePath re, rr_label = ref_label ref,
                              rr_position = index\<rparr>
                             (re_insertFault re) (aw_database w) of
                        Inl e \<Rightarrow>
                          (Some e, insertedReferenceIds, writtenPaths @ [re_absolutePath re],
                           w\<lparr>aw_files := fs\<rparr>)
                      | Inr db \<Rightarrow>
                          persistReferenceImages_loop env imageId refs (index + 1)
                            (insertedReferenceIds @ [re_refId re])
                            (writtenPaths @ [re_absolutePath re])
                            (w\<lparr>aw_files := fs, aw_database := db\<rparr>)))))"

definition persistReferenceImages ::
  "PersistEnv \<Rightarrow> string \<Rightarrow> GenerationRequest \<Rightarrow> ArtifactWorld \<Rightarrow> (error + unit) \<times> ArtifactWorld" where
  "persistReferenceImages env imageId request w =
     (let refs = (case rq_referenceImages request of None \<Rightarrow> [] | Some rs \<Rightarrow> rs)
      in if length refs = 0 then (Inr (), w)
         else
           (case persistReferenceImages_loop env imageId refs 0 [] [] w of
              (None, insertedReferenceIds, writtenPaths, w') \<Rightarrow> (Inr (), w')
            | (Some e, insertedReferenceIds, writtenPaths, w') \<Rightarrow>
                (Inl e,
                 w'\<lparr>aw_database := foldl (\<lambda>db referenceId. deleteReferenceImageById referenceId db)
                                     (aw_database w') insertedReferenceIds,
                     aw_files := foldl (\<lambda>fs writtenPath. removeFileIfExists writtenPath fs)
                                     (aw_files w') writtenPaths\<rparr>)))"

text \<open>
  The \<^verbatim>\<open>try\<close> block of \<^verbatim>\<open>persistGeneratedImage\<close> for the decoded image.  It returns the image
  id or the error thrown, whether the image row had been inserted (\<^verbatim>\<open>imageInserted\<close>), and
  the world as the block leaves it.
\<close>

definition image_row :: "PersistEnv \<Rightarrow> PersistGeneratedImageInput \<Rightarrow> string
    \<Rightarrow> nat option \<times> nat option \<Rightarrow> ImageRow" where
  "image_row env input imageBuffer metadata =
     \<lparr>img_id = pe_imageId env, img_projectId = rq_projectId (pi_request input),
      img_prompt = rq_prompt (pi_request input), img_model = rq_model (pi_request input),
      img_resolution = rq_resolution (pi_request input), img_modelText = pi_modelText input,
      img_filePath = pe_absoluteOriginalPath env, img_thumbPath = Some (pe_relativeThumbPath env),
      img_width = fst metadata, img_height = snd metadata,
      img_fileSize = Some (length imageBuffer), img_parentId = rq_parentId (pi_request input),
      img_generationMs = Some (pi_generationMs input),
      img_costEstimate = Some (pi_costEstimate input), img_deletedAt = None\<rparr>"

definition persist_try ::
  "PersistEnv \<Rightarrow> PersistGeneratedImageInput \<Rightarrow> string \<Rightarrow> ArtifactWorld
    \<Rightarrow> (error + string) \<times> bool \<times> ArtifactWorld" where
  "persist_try env input imageBuffer w =
     (case pe_mkdirOriginal env of
        Some e \<Rightarrow> (Inl e, False, w)
      | None \<Rightarrow>
     (case pe_mkdirThumb env of
        Some e \<Rightarrow> (Inl e, False, w)
      | None \<Rightarrow>
     (case writeFile (pe_absoluteOriginalPath env) imageBuffer (pe_writeOriginal env) (aw_files w) of
        (Inl e, fs1) \<Rightarrow> (Inl e, False, w\<lparr>aw_files := fs1\<rparr>)
      | (Inr _, fs1) \<Rightarrow>
     (case pe_metadata env of
        Inl e \<Rightarrow> (Inl e, False, w\<lparr>aw_files := fs1\<rparr>)
      | Inr metadata \<Rightarrow>
     (case writeFile (pe_absoluteThumbPath env) (pe_thumbnailBytes env) (pe_writeThumb env) fs1 of
        (Inl e, fs2) \<Rightarrow> (Inl e, False, w\<lparr>aw_files := fs2\<rparr>)
      | (Inr _, fs2) \<Rightarrow>
     (case insertImage (image_row env input imageBuffer metadata) (pe_insertImageFault env)
             (aw_database w) of
        Inl e \<Rightarrow> (Inl e, False, w\<lparr>aw_files := fs2\<rparr>)
      | Inr db \<Rightarrow>
     (case persistReferenceImages env (pe_imageId env) (pi_request input)
             (w\<lparr>aw_files := fs2, aw_database := db\<rparr>) of
        (Inl e, w') \<Rightarrow> (Inl e, True, w')
      | (Inr _, w') \<Rightarrow> (Inr (pe_imageId env), True, w'))))))))"

text \<open>
  \<^verbatim>\<open>persistGeneratedImage\<close>: the payload is decoded before the \<^verbatim>\<open>try\<close> block; the \<^verbatim>\<open>catch\<close>
  block deletes the rows of the image if its row had been inserted, removes the two
  files, and throws the error again.
\<close>

definition persistGeneratedImage ::
  "PersistEnv \<Rightarrow> PersistGeneratedImageInput \<Rightarrow> ArtifactWorld \<Rightarrow> (error + string) \<times> ArtifactWorld" where
  "persistGeneratedImage env input w =
     (case decodeBase64Payload (pe_buffer_from env) (part_dataBase64 (pi_generated input))
             ''Generiertes Bild'' None of
        Inl e \<Rightarrow> (Inl e, w)
      | Inr imageBuffer \<Rightarrow>
          (case persist_try env input imageBuffer w of
             (Inr imageId, imageInserted, w') \<Rightarrow> (Inr imageId, w')
           | (Inl e, imageInserted, w') \<Rightarrow>
               (Inl e,
                w'\<lparr>aw_database :=
                      (if imageInserted
                       then deleteImageHard (pe_imageId env)
                              (deleteReferenceImagesByImageId (pe_imageId env) (aw_database w'))
                       else aw_database w'),
                    aw_files :=
                      removeFileIfExists (pe_absoluteThumbPath env)
                        (removeFileIfExists (pe_absoluteOriginalPath env) (aw_files w'))\<rparr>)))"





section \<open>Example data\<close>

text \<open>Concrete requests, rows and queues at which the theorems below are instantiated.\<close>

definition sample_request :: GenerationRequest where
  "sample_request =
     \<lparr>rq_model = ''gemini-3-pro-image-preview'', rq_prompt = ''a red fox'',
      rq_systemPrompt = None, rq_referenceImages = None, rq_resolution = Some ''1K'',
      rq_batchCount = Some 3, rq_parentId = None, rq_projectId = None\<rparr>"

definition sample_job :: "string \<Rightarrow> QueueStatus \<Rightarrow> QueueJob" where
  "sample_job i s =
     \<lparr>job_id = i, job_status = s, job_request = sample_request\<lparr>rq_batchCount := Some 1\<rparr>,
      job_resultId = None, job_error = None, job_priority = 0, job_createdAt = 10,
      job_startedAt = (if s = Running then Some 20 else None), job_completedAt = None\<rparr>"

definition sample_clock :: SqlClock where
  "sample_clock = \<lparr>CURRENT_TIMESTAMP = 100, now_minus_1_day = 90, now_minus_1_month = 50\<rparr>"

definition sample_database :: "QueueJob list \<Rightarrow> StudioDatabase" where
  "sample_database js =
     \<lparr>queue_jobs = js, usage_log = [], images = [], reference_images = [],
      sql_clock = sample_clock\<rparr>"

definition sample_config :: StudioConfigFile where
  "sample_config = \<lparr>apiKey = Some ''key'', monthlySpendLimitUsd = None, totalSpendLimitUsd = None\<rparr>"

definition sample_queue :: "QueueJob list \<Rightarrow> int \<Rightarrow> int \<Rightarrow> GenerationQueue" where
  "sample_queue js a c =
     \<lparr>database = sample_database js, configStore = sample_config, activeRuns = a,
      paused = False, concurrency = c\<rparr>"



definition sample_uuid :: "nat \<Rightarrow> string" where
  "sample_uuid i = ''job-'' @ string_of_nat i"

text \<open>A response body with one image part and one text part, and one with text only.\<close>

definition sample_image_body :: json where
  "sample_image_body =
     JObject [(''candidates'', JArray [JObject [(''content'', JObject [(''parts'', JArray
       [JObject [(''inlineData'', JObject [(''mimeType'', JString ''image/png''),
                                            (''data'', JString ''aGVsbG8='')])],
        JObject [(''text'', JString '' a fox '')]])])]])]"


text \<open>A service that answers 503 twice and then succeeds.\<close>

definition sample_flaky_fetch :: "nat \<Rightarrow> FetchOutcome" where
  "sample_flaky_fetch k = (if k < 3 then Response 503 None else Response 200 (Some sample_image_body))"

text \<open>
  A run of the artifact store for a request with two reference images, in which the write
  of the second reference file has the given outcome; the decoder is a stand-in that
  yields the payload itself.
\<close>

definition sample_ref_env :: "WriteOutcome \<Rightarrow> nat \<Rightarrow> RefEnv" where
  "sample_ref_env second i =
     \<lparr>re_refId = ''ref-'' @ string_of_nat i,
      re_relativePath = ''images/references/ref-'' @ string_of_nat i,
      re_absolutePath = ''/studio/images/references/ref-'' @ string_of_nat i,
      re_insideRoot = True,
      re_write = (if i = 1 then second else Written),
      re_insertFault = None\<rparr>"

definition sample_persist_env :: "WriteOutcome \<Rightarrow> PersistEnv" where
  "sample_persist_env second =
     \<lparr>pe_buffer_from = (\<lambda>s. s),
      pe_imageId = ''img-1'',
      pe_absoluteOriginalPath = ''/studio/images/originals/img-1.png'',
      pe_relativeThumbPath = ''images/thumbnails/img-1.webp'',
      pe_absoluteThumbPath = ''/studio/images/thumbnails/img-1.webp'',
      pe_mkdirOriginal = None, pe_mkdirThumb = None,
      pe_writeOriginal = Written,
      pe_metadata = Inr (Some 1024, Some 1024),
      pe_thumbnailBytes = ''thumb'',
      pe_writeThumb = Written,
      pe_insertImageFault = None,
      pe_ref = sample_ref_env second\<rparr>"

definition sample_reference :: "string \<Rightarrow> ReferenceImagePayload" where
  "sample_reference d =
     \<lparr>ref_name = ''reference'', ref_mimeType = ''image/png'', ref_dataBase64 = d,
      ref_label = Some ''style''\<rparr>"

definition sample_persist_input :: PersistGeneratedImageInput where
  "sample_persist_input =
     \<lparr>pi_request = sample_request\<lparr>rq_referenceImages :=
          Some [sample_reference ''QUJD'', sample_reference ''REVG'']\<rparr>,
      pi_generated = \<lparr>part_mimeType = ''image/png'', part_dataBase64 = ''aGVsbG8=''\<rparr>,
      pi_modelText = None, pi_generationMs = 1200, pi_costEstimate = 134 / 1000\<rparr>"

definition sample_world :: ArtifactWorld where
  "sample_world = \<lparr>aw_database = sample_database [], aw_files = Map.empty\<rparr>"

section \<open>Bookkeeping of the dispatch loop\<close>

lemma count_after_update:
  assumes "distinct (map job_id js)" "j \<in> set js" "job_id (f j) = job_id j"
  shows "length (filter P (map (\<lambda>k. if job_id k = job_id j then f k else k) js))
           + (if P j then 1 else 0)
         = length (filter P js) + (if P (f j) then 1 else 0)"
  using assms
proof (induction js)
  case Nil
  then show ?case by simp
next
  case (Cons a js)
  show ?case
  proof (cases "a = j")
    case True
    with Cons.prems have "\<forall>k\<in>set js. job_id k \<noteq> job_id j" by (auto simp: image_iff)
    then have "map (\<lambda>k. if job_id k = job_id j then f k else k) js = js"
      by (induction js) auto
    with True show ?thesis by simp
  next
    case False
    with Cons.prems have "j \<in> set js" "job_id a \<noteq> job_id j" "distinct (map job_id js)"
      by (auto simp: image_iff)
    with Cons.IH Cons.prems(3) show ?thesis by simp
  qed
qed

lemma update_absent:
  "i \<notin> set (map job_id js) \<Longrightarrow> map (\<lambda>k. if job_id k = i then f k else k) js = js"
  by (induction js) auto

lemma ids_after_update:
  "(\<And>k. job_id (f k) = job_id k) \<Longrightarrow>
   map job_id (map (\<lambda>k. if c k then f k else k) js) = map job_id js"
  by (induction js) auto

lemma requests_after_update:
  "(\<And>k. job_request (f k) = job_request k) \<Longrightarrow>
   map job_request (map (\<lambda>k. if c k then f k else k) js) = map job_request js"
  by (induction js) auto

lemma find_by_id_mem:
  "find (\<lambda>j. job_id j = i) js = Some j \<Longrightarrow> j \<in> set js \<and> job_id j = i"
  by (induction js) (auto split: if_splits)

lemma claim_keeps_inv:
  assumes "sched_inv q" "getNextPendingJob (database q) = Some j"
  shows "sched_inv (runJob_claim j q) \<and> running_count (runJob_claim j q) = running_count q + 1"
proof -
  from assms(2) have j: "j \<in> set (queue_jobs (database q))" "job_status j = Pending"
    by (auto dest: getNextPendingJob_pending)
  from assms(1) have d: "distinct (map job_id (queue_jobs (database q)))"
    by (simp add: sched_inv_def)
  have "running_count (runJob_claim j q) = running_count q + 1"
    using count_after_update [OF d j(1), of "\<lambda>k. k\<lparr>job_status := Running, job_startedAt := Some (CURRENT_TIMESTAMP (sql_clock (database q)))\<rparr>" "\<lambda>j. job_status j = Running"] j(2)
    by (simp add: running_count_def runJob_claim_def markQueueJobRunning_def)
  moreover have "map job_id (queue_jobs (database (runJob_claim j q))) = map job_id (queue_jobs (database q))"
    by (simp add: runJob_claim_def markQueueJobRunning_def ids_after_update)
  ultimately show ?thesis
    using assms(1) by (simp add: sched_inv_def) (simp add: runJob_claim_def)
qed

lemma claim_marks_running:
  assumes "getNextPendingJob (database q) = Some j"
  shows "\<exists>r\<in>set (queue_jobs (database (runJob_claim j q))). job_id r = job_id j \<and> job_status r = Running"
proof -
  from assms have "j \<in> set (queue_jobs (database q))" by (auto dest: getNextPendingJob_pending)
  then have "j\<lparr>job_status := Running, job_startedAt := Some (CURRENT_TIMESTAMP (sql_clock (database q)))\<rparr>
      \<in> set (queue_jobs (database (runJob_claim j q)))"
    by (force simp: runJob_claim_def markQueueJobRunning_def image_iff)
  then show ?thesis
    by (rule bexI [rotated]) simp
qed

lemma leave_running_keeps_inv:
  assumes inv: "sched_inv q"
    and r: "r \<in> set (queue_jobs (database q))" "job_status r = Running"
    and f: "\<And>k. job_id (f k) = job_id k" "job_status (f r) \<noteq> Running"
    and db: "queue_jobs (database q') = map (\<lambda>k. if job_id k = job_id r then f k else k) (queue_jobs (database q))"
    and a: "activeRuns q' = activeRuns q"
  shows "sched_inv (count_out q') \<and> running_count (count_out q') + 1 = running_count q"
proof -
  from inv have d: "distinct (map job_id (queue_jobs (database q)))"
    by (simp add: sched_inv_def)
  have c: "running_count q' + 1 = running_count q"
    using count_after_update [of "queue_jobs (database q)" r f "\<lambda>j. job_status j = Running"] d r f
    by (simp add: running_count_def db)
  have "map job_id (queue_jobs (database q')) = map job_id (queue_jobs (database q))"
    unfolding db using f(1) by (simp add: ids_after_update)
  with c inv a show ?thesis
    by (auto simp: sched_inv_def count_out_def running_count_def)
qed


lemma kick_loop_preserves:
  assumes R_refl: "\<And>q. R q q"
    and R_trans: "\<And>a b c. R a b \<Longrightarrow> R b c \<Longrightarrow> R a c"
    and claim: "\<And>q j. I q \<Longrightarrow> activeRuns q < concurrency q \<Longrightarrow>
        getNextPendingJob (database q) = Some j \<Longrightarrow> I (runJob_claim j q) \<and> R q (runJob_claim j q)"
    and fail: "\<And>q j m. I q \<Longrightarrow>
        \<exists>r\<in>set (queue_jobs (database q)). job_id r = job_id j \<and> job_status r = Running \<Longrightarrow>
        I (count_out (runJob_catch j m q)) \<and> R q (count_out (runJob_catch j m q))"
  shows "I q \<Longrightarrow> I (kick_loop q) \<and> R q (kick_loop q)"
proof (induction q rule: kick_loop.induct)
  case (1 q)
  show ?case
  proof (cases "activeRuns q < concurrency q")
    case False
    with "1.prems" R_refl show ?thesis by (simp add: kick_loop.simps [of q])
  next
    case lt: True
    show ?thesis
    proof (cases "getNextPendingJob (database q)")
      case None
      with lt "1.prems" R_refl show ?thesis by (simp add: kick_loop.simps [of q])
    next
      case (Some j)
      define q1 where "q1 = runJob_claim j q"
      have c: "I q1" "R q q1"
        using claim [OF "1.prems" lt Some] by (simp_all add: q1_def)
      show ?thesis
      proof (cases "runJob_precheck j q1")
        case (Inr x)
        then have "kick_loop q = kick_loop q1"
          using lt Some by (simp add: kick_loop.simps [of q] q1_def)
        moreover have "I (kick_loop q1) \<and> R q1 (kick_loop q1)"
          using "1.IH"(3) [OF lt Some] Inr c(1) by (simp add: q1_def)
        ultimately show ?thesis using c(2) R_trans by auto
      next
        case (Inl e)
        define q' where "q' = count_out (runJob_catch j (error_message e) q1)"
        have f: "I q'" "R q1 q'"
          using fail [OF c(1), of j "error_message e"] claim_marks_running [OF Some]
          by (simp_all add: q'_def q1_def)
        have unf: "kick_loop q = kick_loop (if paused q' then q' else kick_loop q')"
          using lt Some Inl by (simp add: kick_loop.simps [of q] q'_def q1_def Let_def)
        have qq': "R q q'" using c(2) f(2) R_trans by blast
        show ?thesis
        proof (cases "paused q'")
          case True
          have "I (kick_loop q') \<and> R q' (kick_loop q')"
            using "1.IH"(2) [OF lt Some] Inl True f(1) by (simp add: q'_def q1_def Let_def)
          with unf True qq' R_trans show ?thesis by auto
        next
          case False
          have a: "I (kick_loop q') \<and> R q' (kick_loop q')"
            using "1.IH"(1) [OF lt Some _ _ False] Inl f(1) by (simp add: q'_def q1_def)
          have "I (kick_loop (kick_loop q')) \<and> R (kick_loop q') (kick_loop (kick_loop q'))"
            using "1.IH"(2) [OF lt Some] Inl False a by (simp add: q'_def q1_def Let_def)
          with a unf False qq' R_trans show ?thesis by (metis (full_types))
        qed
      qed
    qed
  qed
qed

lemma kick_rel_refl: "kick_rel q q"
  by (simp add: kick_rel_def)

lemma kick_rel_trans: "kick_rel a b \<Longrightarrow> kick_rel b c \<Longrightarrow> kick_rel a c"
  by (auto simp: kick_rel_def)

lemma kick_rel_claim:
  assumes "sched_inv q" "activeRuns q < concurrency q" "getNextPendingJob (database q) = Some j"
  shows "sched_inv (runJob_claim j q) \<and> kick_rel q (runJob_claim j q)"
proof -
  have a: "sched_inv (runJob_claim j q)" "running_count (runJob_claim j q) = running_count q + 1"
    using claim_keeps_inv [OF assms(1,3)] by simp_all
  from assms(1,2) have "running_count q + 1 \<le> nat (concurrency q)"
    by (simp add: sched_inv_def)
  with a show ?thesis
    by (simp add: kick_rel_def)
      (simp add: runJob_claim_def markQueueJobRunning_def ids_after_update requests_after_update)
qed

lemma kick_rel_fail:
  assumes "sched_inv q"
    "\<exists>r\<in>set (queue_jobs (database q)). job_id r = job_id j \<and> job_status r = Running"
  shows "sched_inv (count_out (runJob_catch j m q)) \<and> kick_rel q (count_out (runJob_catch j m q))"
proof -
  from assms(2) obtain r where r: "r \<in> set (queue_jobs (database q))" "job_id r = job_id j"
    "job_status r = Running" by auto
  have a: "sched_inv (count_out (runJob_catch j m q))
      \<and> running_count (count_out (runJob_catch j m q)) + 1 = running_count q"
    by (rule leave_running_keeps_inv [OF assms(1) r(1,3),
          where f = "\<lambda>k. k\<lparr>job_status := Failed, job_error := Some m,
             job_completedAt := Some (CURRENT_TIMESTAMP (sql_clock (database q)))\<rparr>"])
       (simp_all add: runJob_catch_def markQueueJobFailed_def r(2))
  have b: "running_count (count_out (runJob_catch j m q))
      \<le> max (running_count q) (nat (concurrency q))"
    using a by linarith
  have c: "concurrency (count_out (runJob_catch j m q)) = concurrency q"
    "paused (count_out (runJob_catch j m q)) = paused q"
    "configStore (count_out (runJob_catch j m q)) = configStore q"
    "map job_id (queue_jobs (database (count_out (runJob_catch j m q))))
       = map job_id (queue_jobs (database q))"
    "map job_request (queue_jobs (database (count_out (runJob_catch j m q))))
       = map job_request (queue_jobs (database q))"
    "usage_log (database (count_out (runJob_catch j m q))) = usage_log (database q)"
    "images (database (count_out (runJob_catch j m q))) = images (database q)"
    by (simp_all add: count_out_def runJob_catch_def markQueueJobFailed_def ids_after_update
        requests_after_update)
  from a b c show ?thesis
    unfolding kick_rel_def by blast
qed

lemma kick_loop_inv:
  assumes "sched_inv q"
  shows "sched_inv (kick_loop q) \<and> kick_rel q (kick_loop q)"
proof (rule kick_loop_preserves [where I = sched_inv and R = kick_rel])
  show "kick_rel a a" for a by (rule kick_rel_refl)
  show "kick_rel a b \<Longrightarrow> kick_rel b c \<Longrightarrow> kick_rel a c" for a b c by (rule kick_rel_trans)
  show "sched_inv a \<Longrightarrow> activeRuns a < concurrency a \<Longrightarrow> getNextPendingJob (database a) = Some j
    \<Longrightarrow> sched_inv (runJob_claim j a) \<and> kick_rel a (runJob_claim j a)" for a j
    by (rule kick_rel_claim)
  show "sched_inv a \<Longrightarrow>
    \<exists>r\<in>set (queue_jobs (database a)). job_id r = job_id j \<and> job_status r = Running \<Longrightarrow>
    sched_inv (count_out (runJob_catch j m a)) \<and> kick_rel a (count_out (runJob_catch j m a))" for a j m
    by (rule kick_rel_fail)
  show "sched_inv q" by (rule assms)
qed

lemma kick_inv: "sched_inv q \<Longrightarrow> sched_inv (kick q) \<and> kick_rel q (kick q)"
  using kick_loop_inv [of q] by (simp add: kick_def kick_rel_refl)

lemma find_after_update:
  assumes "\<And>k. job_id (f k) = job_id k"
  shows "find (\<lambda>j. job_id j = i) (map (\<lambda>k. if c k then f k else k) js)
         = map_option (\<lambda>k. if c k then f k else k) (find (\<lambda>j. job_id j = i) js)"
  using assms by (induction js) auto

lemma untouched_rows_stay:
  "k \<in> set js \<Longrightarrow> \<not> c k \<Longrightarrow> k \<in> set (map (\<lambda>k. if c k then f k else k) js)"
  by (force simp: image_iff)

lemma filter_after_update_same:
  "(\<And>k. c k \<Longrightarrow> \<not> P k \<and> \<not> P (f k)) \<Longrightarrow>
   filter P (map (\<lambda>k. if c k then f k else k) js) = filter P js"
  by (induction js) auto


lemma requeue_rows:
  "queue_jobs (snd (requeueRunningJobs db)) =
     map (\<lambda>j. if job_status j = Running
         then j\<lparr>job_status := Pending, job_startedAt := None, job_completedAt := None,
                job_error := None\<rparr>
         else j) (queue_jobs db)"
  by (simp add: requeueRunningJobs_def)

lemma requeue_none_running:
  "filter (\<lambda>j. job_status j = Running) (queue_jobs (snd (requeueRunningJobs db))) = []"
  unfolding requeue_rows by (induction "queue_jobs db") (auto simp: filter_empty_conv)

lemma constructor_inv:
  assumes "distinct (map job_id (queue_jobs db))"
  shows "sched_inv (GenerationQueue_new db config c)
    \<and> running_count (GenerationQueue_new db config c) \<le> nat (clampConcurrency c)
    \<and> concurrency (GenerationQueue_new db config c) = clampConcurrency c
    \<and> map job_id (queue_jobs (database (GenerationQueue_new db config c))) = map job_id (queue_jobs db)"
proof -
  define q0 where "q0 = \<lparr>database = snd (requeueRunningJobs db), configStore = config,
    activeRuns = 0, paused = False, concurrency = clampConcurrency c\<rparr>"
  have ids: "map job_id (queue_jobs (database q0)) = map job_id (queue_jobs db)"
    unfolding q0_def by (simp add: requeue_rows ids_after_update)
  have r0: "running_count q0 = 0"
    by (simp add: running_count_def q0_def requeue_none_running)
  have "sched_inv q0"
    using assms ids r0 by (simp add: sched_inv_def) (simp add: q0_def)
  from kick_inv [OF this] r0 ids show ?thesis
    by (simp add: GenerationQueue_new_def q0_def [symmetric] kick_rel_def) (simp add: q0_def)
qed


lemma insertQueueJob_fresh:
  "jid \<notin> set (map job_id (queue_jobs db)) \<Longrightarrow>
   insertQueueJob jid Pending (request\<lparr>rq_batchCount := Some 1\<rparr>) 0 db
     = Inr (db\<lparr>queue_jobs := queue_jobs db @ [pending_row db request jid]\<rparr>)"
  by (simp add: insertQueueJob_def pending_row_def)


lemma enqueue_loop_fresh:
  assumes "0 \<le> i"
    and "distinct (map uuidv4 [nat i ..< nat n])"
    and "set (map uuidv4 [nat i ..< nat n]) \<inter> set (map job_id (queue_jobs db)) = {}"
  shows "enqueue_loop uuidv4 request n i ids db
         = (Inr (ids @ map uuidv4 [nat i ..< nat n]),
            db\<lparr>queue_jobs := queue_jobs db @ map (pending_row db request) (map uuidv4 [nat i ..< nat n])\<rparr>)"
  using assms
proof (induction uuidv4 request n i ids db rule: enqueue_loop.induct)
  case (1 uuidv4 request n i ids db)
  show ?case
  proof (cases "i < n")
    case False
    with "1.prems" have "[nat i ..< nat n] = []" by simp
    with False show ?thesis by (simp add: enqueue_loop.simps [of _ _ n i])
  next
    case True
    from "1.prems"(1) have suc: "nat (i + 1) = Suc (nat i)" by linarith
    from True "1.prems"(1) have "nat i < nat n" by linarith
    then have ks: "[nat i ..< nat n] = nat i # [nat (i + 1) ..< nat n]"
      unfolding suc by (rule upt_conv_Cons)
    define db' where "db' = db\<lparr>queue_jobs := queue_jobs db @ [pending_row db request (uuidv4 (nat i))]\<rparr>"
    have fresh: "uuidv4 (nat i) \<notin> set (map job_id (queue_jobs db))"
      using "1.prems"(3) unfolding ks by auto
    have ins: "insertQueueJob (uuidv4 (nat i)) Pending (request\<lparr>rq_batchCount := Some 1\<rparr>) 0 db = Inr db'"
      unfolding db'_def by (rule insertQueueJob_fresh [OF fresh])
    have d': "distinct (map uuidv4 [nat (i + 1) ..< nat n])"
      using "1.prems"(2) unfolding ks by simp
    have f': "set (map uuidv4 [nat (i + 1) ..< nat n]) \<inter> set (map job_id (queue_jobs db')) = {}"
      using "1.prems"(2,3) unfolding ks db'_def by (auto simp: pending_row_def)
    have "enqueue_loop uuidv4 request n (i + 1) (ids @ [uuidv4 (nat i)]) db'
         = (Inr ((ids @ [uuidv4 (nat i)]) @ map uuidv4 [nat (i + 1) ..< nat n]),
            db'\<lparr>queue_jobs := queue_jobs db' @ map (pending_row db' request) (map uuidv4 [nat (i + 1) ..< nat n])\<rparr>)"
      using "1.IH" [OF True refl ins _ d' f'] "1.prems"(1) by simp
    moreover have "pending_row db' request = pending_row db request"
      by (simp add: pending_row_def db'_def fun_eq_iff)
    ultimately show ?thesis
      using True ins unfolding ks
      by (simp add: enqueue_loop.simps [of _ _ n i] Let_def) (simp add: db'_def)
  qed
qed


lemma sched_inv_cong:
  "sched_inv q \<Longrightarrow> queue_jobs (database q') = queue_jobs (database q) \<Longrightarrow>
   activeRuns q' = activeRuns q \<Longrightarrow> sched_inv q' \<and> running_count q' = running_count q"
  by (simp add: sched_inv_def running_count_def)
















section \<open>Admission control and the insertion loop\<close>

lemma foldl_add_sum:
  "foldl (\<lambda>s j. s + f j) a xs = a + sum_list (map f xs)" for a :: rat
  by (induction xs arbitrary: a) (simp_all add: add.assoc)

lemma sum_list_insort_key:
  "sum_list (map f (insort_key k x xs)) = f x + sum_list (map f xs)" for f :: "'a \<Rightarrow> rat"
  by (induction xs) (simp_all add: add.left_commute)

lemma sum_list_sort_key:
  "sum_list (map f (sort_key k xs)) = sum_list (map f xs)" for f :: "'a \<Rightarrow> rat"
  by (induction xs) (simp_all add: sum_list_insort_key)

lemma reserved_is_sum: "getReservedQueueCost None db = reserved_open_cost db"
proof -
  have "getReservedQueueCost None db
      = sum_list (map (\<lambda>j. estimateCost (rq_resolution (job_request j))) (listOpenQueueJobs db))"
    by (simp add: getReservedQueueCost_def foldl_add_sum)
  also have "\<dots> = reserved_open_cost db"
    unfolding listOpenQueueJobs_def reserved_open_cost_def
    by (simp add: rev_map [symmetric] sum_list_sort_key)
  finally show ?thesis .
qed

lemma batch_count_range: "1 \<le> batch_count request \<and> batch_count request \<le> 4"
  by (simp add: batch_count_def MAX_BATCH_COUNT_def)

lemma batch_cost_pos: "0 < batch_cost request"
proof -
  have "0 < estimateCost (rq_resolution request)" by (simp add: estimateCost_def)
  moreover have "(0::rat) < of_int (batch_count request)"
    using batch_count_range [of request] by simp
  ultimately show ?thesis unfolding batch_cost_def by (rule mult_pos_pos)
qed

lemma normalized_ceiling:
  "normalizeSpendLimit v = None \<or> normalizeSpendLimit v = Some PosInfinity
   \<or> (\<exists>l. normalizeSpendLimit v = Some (Fin l))"
  by (cases v; simp add: normalizeSpendLimit_def split: jsnum.splits)

lemma single_limit_exceeds:
  assumes "cap = normalizeSpendLimit v"
  shows "assertSingleLimit label cap spent reserved extra
    = (if exceeds (spent + reserved + extra) cap
       then Inl (SpendLimitError label spent reserved extra (the cap)) else Inr ())"
  using normalized_ceiling [of v] assms
  by (auto simp: assertSingleLimit_def exceeds_def Let_def)

lemma assertSpend_enqueue:
  "assertSpendWithinLimits (batch_cost request) None q =
     (let m = pub_monthlySpendLimitUsd (getPublicConfig (configStore q));
          t = pub_totalSpendLimitUsd (getPublicConfig (configStore q));
          r = reserved_open_cost (database q);
          c = batch_cost request
      in if exceeds (getSessionCost (database q) WindowMonth + r + c) m
         then Inl (SpendLimitError ''Monatslimit'' (getSessionCost (database q) WindowMonth) r c (the m))
         else if exceeds (getSessionCost (database q) WindowAll + r + c) t
         then Inl (SpendLimitError ''Gesamtlimit'' (getSessionCost (database q) WindowAll) r c (the t))
         else Inr ())"
proof -
  have m: "pub_monthlySpendLimitUsd (getPublicConfig (configStore q))
      = normalizeSpendLimit (monthlySpendLimitUsd (configStore q))"
    and t: "pub_totalSpendLimitUsd (getPublicConfig (configStore q))
      = normalizeSpendLimit (totalSpendLimitUsd (configStore q))"
    by (simp_all add: getPublicConfig_def)
  show ?thesis
    using batch_cost_pos [of request]
    by (simp add: assertSpendWithinLimits_def Let_def reserved_is_sum
        single_limit_exceeds [OF m] single_limit_exceeds [OF t])
qed

lemma enqueue_unfold:
  "enqueue uuidv4 request q =
     (case assertSpendWithinLimits (batch_cost request) None q of
        Inl e \<Rightarrow> (Inl e, q)
      | Inr _ \<Rightarrow>
          (case enqueue_loop uuidv4 request (batch_count request) 0 [] (database q) of
             (Inl e, db') \<Rightarrow> (Inl e, q\<lparr>database := db'\<rparr>)
           | (Inr queuedJobIds, db') \<Rightarrow> (Inr queuedJobIds, kick (q\<lparr>database := db'\<rparr>))))"
  unfolding enqueue_def batch_cost_def batch_count_def Let_def by (rule refl)

lemma enqueue_loop_error:
  "enqueue_loop uuidv4 request n i ids db = (Inl e, db') \<Longrightarrow> \<exists>m. e = StorageError m"
proof (induction uuidv4 request n i ids db rule: enqueue_loop.induct)
  case (1 uuidv4 request n i ids db)
  show ?case
  proof (cases "i < n")
    case False
    with "1.prems" show ?thesis by (simp add: enqueue_loop.simps [of _ _ n i])
  next
    case True
    show ?thesis
    proof (cases "insertQueueJob (uuidv4 (nat i)) Pending (request\<lparr>rq_batchCount := Some 1\<rparr>) 0 db")
      case (Inl e')
      with True "1.prems" show ?thesis
        by (auto simp: enqueue_loop.simps [of _ _ n i] insertQueueJob_def split: if_splits)
    next
      case (Inr db1)
      with True "1.prems" "1.IH" [OF True refl Inr] show ?thesis
        by (simp add: enqueue_loop.simps [of _ _ n i])
    qed
  qed
qed

lemma assertSpend_result:
  "assertSpendWithinLimits (batch_cost request) None q = Inr ()
   \<or> is_spend_limit_error (assertSpendWithinLimits (batch_cost request) None q :: error + unit)"
  by (simp add: assertSpend_enqueue Let_def is_spend_limit_error_def)

lemma enqueue_spend_error_iff:
  "is_spend_limit_error (fst (enqueue uuidv4 request q))
   \<longleftrightarrow> is_spend_limit_error (assertSpendWithinLimits (batch_cost request) None q)"
proof (cases "assertSpendWithinLimits (batch_cost request) None q")
  case (Inl e)
  then show ?thesis by (simp add: enqueue_unfold is_spend_limit_error_def)
next
  case (Inr u)
  obtain r db' where l: "enqueue_loop uuidv4 request (batch_count request) 0 [] (database q) = (r, db')"
    by (cases "enqueue_loop uuidv4 request (batch_count request) 0 [] (database q)")
  have "\<not> is_spend_limit_error (fst (enqueue uuidv4 request q))"
  proof (cases r)
    case (Inl e)
    with enqueue_loop_error [of uuidv4 request "batch_count request" 0 "[]" "database q" e db'] l
    obtain m where "e = StorageError m" by auto
    with Inl Inr l show ?thesis by (simp add: enqueue_unfold is_spend_limit_error_def)
  next
    case (Inr ids)
    with \<open>assertSpendWithinLimits (batch_cost request) None q = Inr u\<close> l show ?thesis
      by (simp add: enqueue_unfold is_spend_limit_error_def)
  qed
  with Inr show ?thesis by (simp add: is_spend_limit_error_def)
qed


lemma kick_keeps_rows:
  "map job_id (queue_jobs (database (kick q))) = map job_id (queue_jobs (database q))
   \<and> map job_request (queue_jobs (database (kick q))) = map job_request (queue_jobs (database q))"
proof -
  have "True \<and> (map job_id (queue_jobs (database (kick_loop q))) = map job_id (queue_jobs (database q))
   \<and> map job_request (queue_jobs (database (kick_loop q))) = map job_request (queue_jobs (database q)))"
    by (rule kick_loop_preserves [where I = "\<lambda>q. True"
          and R = "\<lambda>a b. map job_id (queue_jobs (database b)) = map job_id (queue_jobs (database a))
            \<and> map job_request (queue_jobs (database b)) = map job_request (queue_jobs (database a))"])
      (simp_all add: runJob_claim_def count_out_def runJob_catch_def markQueueJobRunning_def
        markQueueJobFailed_def ids_after_update requests_after_update)
  then show ?thesis by (simp add: kick_def)
qed

section \<open>The retry loop unrolled\<close>


lemma generate_loop_step:
  assumes "attempts < 3"
  shows "generate_loop fetch attempts l w =
     (case generateOnce (fetch (Suc attempts)) of
        Inr r \<Rightarrow> (Inr (r\<lparr>res_attempts := Suc attempts\<rparr>), w)
      | Inl e \<Rightarrow>
          if \<not> isRetryable e \<or> 2 \<le> attempts then (Inl e, w)
          else generate_loop fetch (Suc attempts) (Some e) (w @ [800 * 2 ^ attempts]))"
proof -
  have "attempts + 1 \<ge> MAX_RETRIES \<longleftrightarrow> 2 \<le> attempts"
    by (auto simp: MAX_RETRIES_def)
  then show ?thesis
    using assms
    by (subst generate_loop.simps)
      (simp add: MAX_RETRIES_def RETRY_BASE_DELAY_MS_def split: sum.splits)
qed

lemma generate_unrolled:
  "generate fetch =
     (case generateOnce (fetch (Suc 0)) of
        Inr r \<Rightarrow> (Inr (r\<lparr>res_attempts := Suc 0\<rparr>), [])
      | Inl e1 \<Rightarrow>
          if \<not> isRetryable e1 then (Inl e1, [])
          else (case generateOnce (fetch (Suc (Suc 0))) of
                  Inr r \<Rightarrow> (Inr (r\<lparr>res_attempts := Suc (Suc 0)\<rparr>), [800])
                | Inl e2 \<Rightarrow>
                    if \<not> isRetryable e2 then (Inl e2, [800])
                    else (case generateOnce (fetch (Suc (Suc (Suc 0)))) of
                            Inr r \<Rightarrow> (Inr (r\<lparr>res_attempts := Suc (Suc (Suc 0))\<rparr>), [800, 1600])
                          | Inl e3 \<Rightarrow> (Inl e3, [800, 1600]))))"
  unfolding generate_def
  by (simp add: generate_loop_step [of 0] generate_loop_step [of "Suc 0"]
      generate_loop_step [of "Suc (Suc 0)"] split: sum.splits)

lemmas client_eval = generateOnce_def response_ok_def readErrorMessage_def body_record_def
  response_images_def response_texts_def extractCandidateParts_def asRecordArray_def
  extractInlineData_def part_text_def trim_def is_space_def List.map_filter_simps Let_def
  NO_IMAGE_MESSAGE_def digit_char_def

section \<open>Effects of the artifact store\<close>


















lemmas store_eval = persistGeneratedImage_def persist_try_def persistReferenceImages_def
  decodeBase64Payload_def isLikelyBase64_def is_base64_char_def estimateBase64Bytes_def
  is_space_def writeFile_def insertImage_def insertReferenceImage_def image_row_def
  MAX_REFERENCE_IMAGE_BYTES_def removeFileIfExists_def deleteReferenceImageById_def
  deleteImageHard_def deleteReferenceImagesByImageId_def Let_def digit_char_def
  sample_ref_env_def sample_persist_env_def sample_reference_def sample_persist_input_def
  sample_world_def sample_request_def sample_database_def sample_clock_def

text \<open>
  A reference write that fails part-way leaves its partial file behind: its path is
  recorded in \<^verbatim>\<open>writtenPaths\<close> only after the write has succeeded, and the \<^verbatim>\<open>catch\<close> block of
  \<^verbatim>\<open>persistGeneratedImage\<close> removes only the original and the thumbnail.  No row points to
  the file.
\<close>

lemma partial_reference_file_can_remain:
  "aw_files (snd (persistGeneratedImage
       (sample_persist_env (WriteFailed (StorageError ''ENOSPC'') (Some ''AB'')))
       sample_persist_input sample_world))
     = [''/studio/images/references/ref-1'' \<mapsto> ''AB'']"
  by (simp add: store_eval fun_eq_iff)

section \<open>Properties of the configuration store\<close>

lemma toFixed3_abs_near:
  assumes "0 \<le> x" "x < 10 ^ 21"
  shows "\<bar>toFixed3_abs x - x\<bar> \<le> 1 / 2000"
proof -
  define n :: rat where "n = of_int \<lfloor>x * 1000 + 1 / 2\<rfloor>"
  have a: "n \<le> x * 1000 + 1 / 2"
    unfolding n_def by (rule of_int_floor_le)
  have b: "x * 1000 + 1 / 2 < n + 1"
    unfolding n_def using floor_correct [of "x * 1000 + 1 / 2"] by simp
  have c: "toFixed3_abs x = n / 1000"
    using assms by (simp add: toFixed3_abs_def n_def)
  have "n / 1000 - x \<le> 1 / 2000" and "- (1 / 2000) \<le> n / 1000 - x"
    using a b by linarith+
  then have "\<bar>n / 1000 - x\<bar> \<le> 1 / 2000"
    by (rule_tac abs_leI) linarith+
  then show ?thesis
    unfolding c .
qed

text \<open>
  Claim C10.  A stored monthly or total limit that is absent, NaN, zero or negative is
  normalised to \<open>None\<close>, and \<open>None\<close> passes the limit check whatever the amounts are; a
  positive limit (below \<open>10^21\<close>) becomes the multiple of one thousandth nearest to it (ties
  upwards), at most half a thousandth away.  The public configuration hands out exactly
  the normalised limits.
\<close>

theorem spend_limit_nonpositive_is_unset:
  "normalizeSpendLimit None = None
   \<and> normalizeSpendLimit (Some NaN) = None
   \<and> normalizeSpendLimit (Some NegInfinity) = None
   \<and> (x \<le> 0 \<longrightarrow> normalizeSpendLimit (Some (Fin x)) = None
        \<and> assertSingleLimit label (normalizeSpendLimit (Some (Fin x))) spent reserved extra = Inr ())
   \<and> (0 < x \<and> x < 10 ^ 21 \<longrightarrow>
        normalizeSpendLimit (Some (Fin x)) = Some (Fin (of_int \<lfloor>x * 1000 + 1 / 2\<rfloor> / 1000))
        \<and> \<bar>of_int \<lfloor>x * 1000 + 1 / 2\<rfloor> / 1000 - x\<bar> \<le> 1 / 2000)
   \<and> pub_monthlySpendLimitUsd (getPublicConfig config) = normalizeSpendLimit (monthlySpendLimitUsd config)
   \<and> pub_totalSpendLimitUsd (getPublicConfig config) = normalizeSpendLimit (totalSpendLimitUsd config)"
proof -
  have pos: "0 < x \<and> x < 10 ^ 21 \<longrightarrow>
        normalizeSpendLimit (Some (Fin x)) = Some (Fin (of_int \<lfloor>x * 1000 + 1 / 2\<rfloor> / 1000))
        \<and> \<bar>of_int \<lfloor>x * 1000 + 1 / 2\<rfloor> / 1000 - x\<bar> \<le> 1 / 2000"
  proof (intro impI conjI)
    assume h: "0 < x \<and> x < 10 ^ 21"
    then show "normalizeSpendLimit (Some (Fin x)) = Some (Fin (of_int \<lfloor>x * 1000 + 1 / 2\<rfloor> / 1000))"
      by (simp add: normalizeSpendLimit_def toFixed3_abs_def)
    from h have "\<bar>toFixed3_abs x - x\<bar> \<le> 1 / 2000" by (intro toFixed3_abs_near) auto
    with h show "\<bar>of_int \<lfloor>x * 1000 + 1 / 2\<rfloor> / 1000 - x\<bar> \<le> 1 / 2000"
      by (simp add: toFixed3_abs_def)
  qed
  show ?thesis
    using pos by (simp add: normalizeSpendLimit_def assertSingleLimit_def getPublicConfig_def)
qed

theorem spend_limit_nonpositive_is_unset_witness:
  "normalizeSpendLimit (Some (Fin 0)) = None
   \<and> assertSingleLimit ''Monatslimit'' (normalizeSpendLimit (Some (Fin 0))) 5 1 (134 / 1000) = Inr ()
   \<and> normalizeSpendLimit (Some (Fin (12345 / 10000))) = Some (Fin (1235 / 1000))"
  using spend_limit_nonpositive_is_unset [of 0 "''Monatslimit''" 5 1 "134 / 1000"]
    spend_limit_nonpositive_is_unset [of "12345 / 10000"]
  by (simp add: normalizeSpendLimit_def assertSingleLimit_def)

section \<open>Properties of the resolution sent to the remote API\<close>

text \<open>
  Claim C9, as the code has it.  When a resolution is requested, a model named
  \<^verbatim>\<open>gemini-2.5-flash-image\<close> or \<^verbatim>\<open>gemini-2.5-flash-image-preview\<close> is sent \<^verbatim>\<open>1K\<close>, the lowest
  value of the shared \<^verbatim>\<open>Resolution\<close> type, whatever was requested (also for \<^verbatim>\<open>512px\<close>, which
  is thereby raised); every other model is sent the requested resolution unchanged; an
  absent or empty resolution stays absent.
\<close>

theorem fast_model_resolution_is_1K:
  "(resolution = None \<or> resolution = Some [] \<longrightarrow>
      normalizeResolutionForModel m resolution = None)
   \<and> (resolution \<noteq> None \<and> resolution \<noteq> Some [] \<longrightarrow>
        (is_fast_model m \<longrightarrow>
           normalizeResolutionForModel m resolution = Some ''1K''
           \<and> normalizeResolutionForModel m resolution = lowest_tier Resolution_values)
        \<and> (\<not> is_fast_model m \<longrightarrow> normalizeResolutionForModel m resolution = resolution))"
  by (auto simp: normalizeResolutionForModel_def is_fast_model_def Resolution_values_def
      nominal_pixels_def)

theorem fast_model_resolution_is_1K_witness:
  "normalizeResolutionForModel ''gemini-2.5-flash-image-preview'' (Some ''4K'') = Some ''1K''
   \<and> normalizeResolutionForModel ''gemini-2.5-flash-image'' (Some ''512px'') = Some ''1K''
   \<and> normalizeResolutionForModel ''gemini-3-pro-image-preview'' (Some ''4K'') = Some ''4K''
   \<and> normalizeResolutionForModel ''gemini-2.5-flash-image'' None = None"
  using fast_model_resolution_is_1K [of "Some ''4K''" "''gemini-2.5-flash-image-preview''"]
    fast_model_resolution_is_1K [of "Some ''512px''" "''gemini-2.5-flash-image''"]
    fast_model_resolution_is_1K [of "Some ''4K''" "''gemini-3-pro-image-preview''"]
    fast_model_resolution_is_1K [of None "''gemini-2.5-flash-image''"]
  by (simp add: is_fast_model_def)

text \<open>
  The claim as written fails: the lowest tier of the request domain is \<^verbatim>\<open>512px\<close>, and a fast
  model asked for \<^verbatim>\<open>2K\<close> is sent \<^verbatim>\<open>1K\<close>.
\<close>

theorem fast_model_resolution_counterexample:
  "lowest_tier ALLOWED_RESOLUTIONS = Some ''512px''
   \<and> is_fast_model ''gemini-2.5-flash-image''
   \<and> normalizeResolutionForModel ''gemini-2.5-flash-image'' (Some ''2K'') = Some ''1K''
   \<and> normalizeResolutionForModel ''gemini-2.5-flash-image'' (Some ''2K'')
       \<noteq> lowest_tier ALLOWED_RESOLUTIONS"
  by (simp add: normalizeResolutionForModel_def is_fast_model_def ALLOWED_RESOLUTIONS_def
      nominal_pixels_def)

section \<open>Properties of the queue interface\<close>

text \<open>
  Claim C8.  \<^verbatim>\<open>cancel\<close> returns true exactly when a job with the given id exists and is
  pending; that job then is cancelled (with its completion time set).  Otherwise the queue
  is left as it is.  In either case every row that is not pending stays as it is, and
  neither the in-flight counter nor the number of running rows changes.
\<close>

theorem cancel_only_pending:
  "(fst (cancel jobId q) \<longleftrightarrow>
      (\<exists>job. getQueueJobById (database q) jobId = Some job \<and> job_status job = Pending))
   \<and> (\<forall>job. fst (cancel jobId q) \<and> getQueueJobById (database q) jobId = Some job \<longrightarrow>
         getQueueJobById (database (snd (cancel jobId q))) jobId
           = Some (job\<lparr>job_status := Cancelled,
                job_completedAt := Some (CURRENT_TIMESTAMP (sql_clock (database q)))\<rparr>))
   \<and> (\<not> fst (cancel jobId q) \<longrightarrow> snd (cancel jobId q) = q)
   \<and> (\<forall>k\<in>set (queue_jobs (database q)). job_status k \<noteq> Pending \<longrightarrow>
         k \<in> set (queue_jobs (database (snd (cancel jobId q)))))
   \<and> activeRuns (snd (cancel jobId q)) = activeRuns q
   \<and> running_count (snd (cancel jobId q)) = running_count q"
proof (cases "getQueueJobById (database q) jobId")
  case None
  then show ?thesis by (simp add: cancel_def)
next
  case (Some job)
  show ?thesis
  proof (cases "job_status job = Pending")
    case False
    with Some show ?thesis by (simp add: cancel_def)
  next
    case True
    let ?f = "\<lambda>j. j\<lparr>job_status := Cancelled,
                job_completedAt := Some (CURRENT_TIMESTAMP (sql_clock (database q)))\<rparr>"
    let ?c = "\<lambda>j. job_id j = jobId \<and> job_status j = Pending"
    have c: "cancel jobId q = (True, q\<lparr>database := markQueueJobCancelled jobId (database q)\<rparr>)"
      using Some True by (simp add: cancel_def)
    have jid: "job_id job = jobId"
      using Some find_by_id_mem [of jobId "queue_jobs (database q)" job]
      by (simp add: getQueueJobById_def)
    have 1: "getQueueJobById (markQueueJobCancelled jobId (database q)) jobId = Some (?f job)"
      using Some True jid find_after_update [of ?f jobId ?c "queue_jobs (database q)"]
      by (simp add: getQueueJobById_def markQueueJobCancelled_def)
    have 2: "\<forall>k\<in>set (queue_jobs (database q)). job_status k \<noteq> Pending \<longrightarrow>
         k \<in> set (queue_jobs (markQueueJobCancelled jobId (database q)))"
      using untouched_rows_stay [of _ "queue_jobs (database q)" ?c ?f]
      by (auto simp: markQueueJobCancelled_def simp del: set_map)
    have 3: "filter (\<lambda>j. job_status j = Running) (queue_jobs (markQueueJobCancelled jobId (database q)))
        = filter (\<lambda>j. job_status j = Running) (queue_jobs (database q))"
      unfolding markQueueJobCancelled_def
      by (simp, rule filter_after_update_same) simp
    show ?thesis
      using Some True 1 2 3 by (simp add: c running_count_def)
  qed
qed

theorem cancel_only_pending_witness:
  "fst (cancel ''a'' (sample_queue [sample_job ''a'' Pending, sample_job ''b'' Running] 1 2))
   \<and> map_option job_status (getQueueJobById (database (snd (cancel ''a''
        (sample_queue [sample_job ''a'' Pending, sample_job ''b'' Running] 1 2)))) ''a'')
       = Some Cancelled
   \<and> \<not> fst (cancel ''b'' (sample_queue [sample_job ''a'' Pending, sample_job ''b'' Running] 1 2))
   \<and> snd (cancel ''b'' (sample_queue [sample_job ''a'' Pending, sample_job ''b'' Running] 1 2))
       = sample_queue [sample_job ''a'' Pending, sample_job ''b'' Running] 1 2"
  using cancel_only_pending [of "''a''" "sample_queue [sample_job ''a'' Pending, sample_job ''b'' Running] 1 2"]
    cancel_only_pending [of "''b''" "sample_queue [sample_job ''a'' Pending, sample_job ''b'' Running] 1 2"]
  by (simp add: sample_request_def sample_job_def sample_clock_def sample_database_def
      sample_config_def sample_queue_def getQueueJobById_def)


text \<open>
  Claim C6.  \<^verbatim>\<open>requeueRunningJobs\<close> keeps the table's rows in place; a row that was running
  becomes pending with start time, completion time and error cleared, every other row is
  unchanged, so no row is running afterwards, and the call returns the number of rows it
  reset.  The constructor requeues before it dispatches: in the queue it returns (for a
  table with unique ids) every running row is one the constructor's own dispatch started,
  counted by the in-flight counter and within the limit.
\<close>

theorem requeueRunningJobs_resets_running:
  "length (queue_jobs (snd (requeueRunningJobs db))) = length (queue_jobs db)
   \<and> (\<forall>i < length (queue_jobs db).
        (job_status (queue_jobs db ! i) = Running \<longrightarrow>
           queue_jobs (snd (requeueRunningJobs db)) ! i
             = (queue_jobs db ! i)\<lparr>job_status := Pending, job_startedAt := None,
                  job_completedAt := None, job_error := None\<rparr>)
        \<and> (job_status (queue_jobs db ! i) \<noteq> Running \<longrightarrow>
           queue_jobs (snd (requeueRunningJobs db)) ! i = queue_jobs db ! i))
   \<and> (\<forall>j\<in>set (queue_jobs (snd (requeueRunningJobs db))). job_status j \<noteq> Running)
   \<and> fst (requeueRunningJobs db) = length (filter (\<lambda>j. job_status j = Running) (queue_jobs db))
   \<and> (distinct (map job_id (queue_jobs db)) \<longrightarrow>
        activeRuns (GenerationQueue_new db config c)
          = int (running_count (GenerationQueue_new db config c))
        \<and> running_count (GenerationQueue_new db config c) \<le> nat (clampConcurrency c))"
proof -
  let ?f = "\<lambda>j. if job_status j = Running
         then j\<lparr>job_status := Pending, job_startedAt := None, job_completedAt := None,
                job_error := None\<rparr>
         else j"
  have rows: "queue_jobs (snd (requeueRunningJobs db)) = map ?f (queue_jobs db)"
    by (rule requeue_rows)
  have 1: "length (queue_jobs (snd (requeueRunningJobs db))) = length (queue_jobs db)"
    unfolding rows by simp
  have 2: "\<forall>i < length (queue_jobs db).
        (job_status (queue_jobs db ! i) = Running \<longrightarrow>
           queue_jobs (snd (requeueRunningJobs db)) ! i
             = (queue_jobs db ! i)\<lparr>job_status := Pending, job_startedAt := None,
                  job_completedAt := None, job_error := None\<rparr>)
        \<and> (job_status (queue_jobs db ! i) \<noteq> Running \<longrightarrow>
           queue_jobs (snd (requeueRunningJobs db)) ! i = queue_jobs db ! i)"
    unfolding rows by simp
  have 3: "\<forall>j\<in>set (queue_jobs (snd (requeueRunningJobs db))). job_status j \<noteq> Running"
    using requeue_none_running [of db] by (simp add: filter_empty_conv)
  have 4: "fst (requeueRunningJobs db) = length (filter (\<lambda>j. job_status j = Running) (queue_jobs db))"
    by (simp add: requeueRunningJobs_def)
  have 5: "distinct (map job_id (queue_jobs db)) \<longrightarrow>
        activeRuns (GenerationQueue_new db config c)
          = int (running_count (GenerationQueue_new db config c))
        \<and> running_count (GenerationQueue_new db config c) \<le> nat (clampConcurrency c)"
    using constructor_inv [of db config c] by (simp add: sched_inv_def)
  from 1 2 3 4 5 show ?thesis by blast
qed

theorem requeueRunningJobs_resets_running_witness:
  "map job_status (queue_jobs (snd (requeueRunningJobs
       (sample_database [sample_job ''a'' Running, sample_job ''b'' Completed, sample_job ''c'' Running]))))
     = [Pending, Completed, Pending]
   \<and> map job_startedAt (queue_jobs (snd (requeueRunningJobs
       (sample_database [sample_job ''a'' Running, sample_job ''b'' Completed, sample_job ''c'' Running]))))
     = [None, None, None]
   \<and> fst (requeueRunningJobs
       (sample_database [sample_job ''a'' Running, sample_job ''b'' Completed, sample_job ''c'' Running])) = 2
   \<and> running_count (GenerationQueue_new
       (sample_database [sample_job ''a'' Running, sample_job ''b'' Completed, sample_job ''c'' Running])
       sample_config 1) \<le> 1"
  using requeueRunningJobs_resets_running [of
      "sample_database [sample_job ''a'' Running, sample_job ''b'' Completed, sample_job ''c'' Running]"
      sample_config 1]
  by (simp add: sample_request_def sample_job_def sample_clock_def sample_database_def
      sample_config_def requeueRunningJobs_def clampConcurrency_def)

section \<open>Properties of the dispatch loop\<close>




section \<open>Properties of admission control\<close>



text \<open>
  Claim C7.  When \<^verbatim>\<open>enqueue\<close> is admitted and the ids it draws are new and pairwise distinct,
  the normalised batch count \<open>n\<close> lies between 1 and 4, the insertion loop appends exactly
  \<open>n\<close> pending rows to the job table, each holding the request with its batch count set to 1
  and one of the drawn ids, and \<^verbatim>\<open>enqueue\<close> returns these \<open>n\<close> ids in the order of creation.
  The dispatch that follows inside \<^verbatim>\<open>enqueue\<close> changes neither the ids nor the stored requests.
\<close>

theorem enqueue_creates_batch_rows:
  assumes admitted: "\<not> is_spend_limit_error (fst (enqueue uuidv4 request q))"
    and fresh: "distinct (map uuidv4 [0 ..< nat (batch_count request)])"
      "set (map uuidv4 [0 ..< nat (batch_count request)]) \<inter> set (map job_id (queue_jobs (database q))) = {}"
  shows "1 \<le> batch_count request \<and> batch_count request \<le> 4
    \<and> fst (enqueue uuidv4 request q) = Inr (map uuidv4 [0 ..< nat (batch_count request)])
    \<and> enqueue_loop uuidv4 request (batch_count request) 0 [] (database q)
        = (Inr (map uuidv4 [0 ..< nat (batch_count request)]),
           (database q)\<lparr>queue_jobs := queue_jobs (database q)
              @ map (pending_row (database q) request) (map uuidv4 [0 ..< nat (batch_count request)])\<rparr>)
    \<and> snd (enqueue uuidv4 request q)
        = kick (q\<lparr>database := (database q)\<lparr>queue_jobs := queue_jobs (database q)
              @ map (pending_row (database q) request) (map uuidv4 [0 ..< nat (batch_count request)])\<rparr>\<rparr>)
    \<and> map job_id (queue_jobs (database (snd (enqueue uuidv4 request q))))
        = map job_id (queue_jobs (database q)) @ map uuidv4 [0 ..< nat (batch_count request)]
    \<and> map job_request (queue_jobs (database (snd (enqueue uuidv4 request q))))
        = map job_request (queue_jobs (database q))
          @ replicate (nat (batch_count request)) (request\<lparr>rq_batchCount := Some 1\<rparr>)"
proof -
  let ?ids = "map uuidv4 [0 ..< nat (batch_count request)]"
  let ?db = "(database q)\<lparr>queue_jobs := queue_jobs (database q)
              @ map (pending_row (database q) request) ?ids\<rparr>"
  have ok: "assertSpendWithinLimits (batch_cost request) None q = Inr ()"
    using admitted assertSpend_result [of request q] by (simp add: enqueue_spend_error_iff)
  have loop: "enqueue_loop uuidv4 request (batch_count request) 0 [] (database q) = (Inr ?ids, ?db)"
    using enqueue_loop_fresh [of 0 uuidv4 "batch_count request" "database q" request "[]"] fresh
    by simp
  have e: "enqueue uuidv4 request q = (Inr ?ids, kick (q\<lparr>database := ?db\<rparr>))"
    by (simp add: enqueue_unfold ok loop)
  have ids: "map job_id (queue_jobs (database (kick (q\<lparr>database := ?db\<rparr>))))
      = map job_id (queue_jobs (database q)) @ ?ids"
    by (simp add: kick_keeps_rows pending_row_def comp_def)
  have reqs: "map job_request (queue_jobs (database (kick (q\<lparr>database := ?db\<rparr>))))
      = map job_request (queue_jobs (database q))
          @ replicate (nat (batch_count request)) (request\<lparr>rq_batchCount := Some 1\<rparr>)"
    by (simp add: kick_keeps_rows pending_row_def comp_def map_replicate_const)
  from batch_count_range [of request] loop e ids reqs show ?thesis by simp
qed

theorem enqueue_creates_batch_rows_witness:
  "fst (enqueue sample_uuid sample_request (sample_queue [sample_job ''x'' Completed] 0 1))
     = Inr [''job-0'', ''job-1'', ''job-2'']
   \<and> map job_id (queue_jobs (database
         (snd (enqueue sample_uuid sample_request (sample_queue [sample_job ''x'' Completed] 0 1)))))
     = [''x'', ''job-0'', ''job-1'', ''job-2'']
   \<and> map (\<lambda>r. rq_batchCount r) (map job_request (queue_jobs (database
         (snd (enqueue sample_uuid sample_request (sample_queue [sample_job ''x'' Completed] 0 1))))))
     = [Some 1, Some 1, Some 1, Some 1]"
proof -
  let ?q = "sample_queue [sample_job ''x'' Completed] 0 1"
  have n: "batch_count sample_request = 3"
    by (simp add: batch_count_def sample_request_def MAX_BATCH_COUNT_def)
  have ids: "map sample_uuid [0 ..< 3] = [''job-0'', ''job-1'', ''job-2'']"
    by code_simp
  have a: "\<not> is_spend_limit_error (fst (enqueue sample_uuid sample_request ?q))"
    unfolding enqueue_spend_error_iff
    by (simp add: assertSpend_enqueue Let_def exceeds_def
        getPublicConfig_def normalizeSpendLimit_def sample_queue_def sample_config_def
        is_spend_limit_error_def)
  have d: "distinct (map sample_uuid [0 ..< nat (batch_count sample_request)])"
    unfolding n by (simp add: ids)
  have f: "set (map sample_uuid [0 ..< nat (batch_count sample_request)])
      \<inter> set (map job_id (queue_jobs (database ?q))) = {}"
    unfolding n by (simp add: ids sample_queue_def sample_database_def sample_job_def)
  note T = enqueue_creates_batch_rows [OF a d f, unfolded n]
  have 1: "fst (enqueue sample_uuid sample_request ?q) = Inr (map sample_uuid [0 ..< nat 3])"
    using T by blast
  have 2: "map job_id (queue_jobs (database (snd (enqueue sample_uuid sample_request ?q))))
      = map job_id (queue_jobs (database ?q)) @ map sample_uuid [0 ..< nat 3]"
    using T by blast
  have 3: "map job_request (queue_jobs (database (snd (enqueue sample_uuid sample_request ?q))))
      = map job_request (queue_jobs (database ?q))
          @ replicate (nat 3) (sample_request\<lparr>rq_batchCount := Some 1\<rparr>)"
    using T by blast
  have n3: "nat 3 = 3" "replicate 3 x = [x, x, x]" for x :: GenerationRequest
    by (simp_all add: numeral_3_eq_3)
  show ?thesis
    unfolding 1 2 3 n3 ids
    by (simp add: sample_queue_def sample_database_def sample_job_def sample_request_def)
qed

section \<open>Properties of the remote generation client\<close>

text \<open>
  Claim C4.  \<^verbatim>\<open>generate\<close> waits at most twice, so it makes at most three attempts; the delays
  are the base delay before attempt 2 and twice the base delay before attempt 3.  Every
  attempt that was followed by another one failed with a retryable error, and the call
  stops before the third attempt only on a success or on an error that is not retryable;
  its outcome is the outcome of its last attempt.  In particular a first attempt that
  fails with an error that is not retryable ends the call at once, without any wait.  An
  error is retryable exactly when it is an HTTP error with status 429 or at least 500; a
  timeout is mapped to status 504, a response that is not ok carries its own status, and
  any other rejection is not an HTTP error.
\<close>

theorem generate_retry_policy:
  "length (snd (generate fetch)) \<le> 2
   \<and> prefix (snd (generate fetch)) [RETRY_BASE_DELAY_MS, 2 * RETRY_BASE_DELAY_MS]
   \<and> (\<forall>k < length (snd (generate fetch)). failed_retryably (generateOnce (fetch (Suc k))))
   \<and> (length (snd (generate fetch)) < 2 \<longrightarrow>
        \<not> failed_retryably (generateOnce (fetch (Suc (length (snd (generate fetch)))))))
   \<and> fst (generate fetch)
       = map_sum id (\<lambda>r. r\<lparr>res_attempts := Suc (length (snd (generate fetch)))\<rparr>)
           (generateOnce (fetch (Suc (length (snd (generate fetch))))))
   \<and> (generateOnce (fetch 1) = Inl e \<and> \<not> isRetryable e \<longrightarrow> generate fetch = (Inl e, []))
   \<and> (isRetryable e \<longleftrightarrow>
        (\<exists>message status. e = GeminiHttpError message status \<and> (status = 429 \<or> 500 \<le> status)))
   \<and> failed_retryably (generateOnce TimedOut)
   \<and> (\<not> response_ok status \<longrightarrow>
        (failed_retryably (generateOnce (Response status body)) \<longleftrightarrow> status = 429 \<or> 500 \<le> status))
   \<and> \<not> failed_retryably (generateOnce (Rejected message))"
proof -
  let ?w = "snd (generate fetch)"
  have A: "length ?w \<le> 2 \<and> prefix ?w [RETRY_BASE_DELAY_MS, 2 * RETRY_BASE_DELAY_MS]"
    by (simp add: generate_unrolled RETRY_BASE_DELAY_MS_def split: sum.splits)
  have B: "\<forall>k < length ?w. failed_retryably (generateOnce (fetch (Suc k)))"
  proof (intro allI impI)
    fix k assume k: "k < length ?w"
    with A have "k = 0 \<or> k = 1" by linarith
    then show "failed_retryably (generateOnce (fetch (Suc k)))"
    proof
      assume "k = 0"
      with k show ?thesis
        by (auto simp: generate_unrolled failed_retryably_def split: sum.splits if_splits)
    next
      assume "k = 1"
      with k show ?thesis
        by (auto simp: generate_unrolled failed_retryably_def split: sum.splits if_splits)
    qed
  qed
  have C: "length ?w < 2 \<longrightarrow> \<not> failed_retryably (generateOnce (fetch (Suc (length ?w))))"
    by (auto simp: generate_unrolled failed_retryably_def split: sum.splits)
  have D: "fst (generate fetch)
       = map_sum id (\<lambda>r. r\<lparr>res_attempts := Suc (length ?w)\<rparr>) (generateOnce (fetch (Suc (length ?w))))"
    by (auto simp: generate_unrolled split: sum.splits)
  have E: "generateOnce (fetch 1) = Inl e \<and> \<not> isRetryable e \<longrightarrow> generate fetch = (Inl e, [])"
    by (simp add: generate_unrolled)
  have F: "isRetryable e \<longleftrightarrow>
        (\<exists>message status. e = GeminiHttpError message status \<and> (status = 429 \<or> 500 \<le> status))"
    by (cases e) auto
  have G: "failed_retryably (generateOnce TimedOut)"
    "\<not> response_ok status \<longrightarrow>
        (failed_retryably (generateOnce (Response status body)) \<longleftrightarrow> status = 429 \<or> 500 \<le> status)"
    "\<not> failed_retryably (generateOnce (Rejected message))"
    by (simp_all add: failed_retryably_def generateOnce_def)
  from A B C D E F G show ?thesis by blast
qed

theorem generate_retry_policy_witness:
  "generate sample_flaky_fetch
     = (Inr \<lparr>res_images = [\<lparr>part_mimeType = ''image/png'', part_dataBase64 = ''aGVsbG8=''\<rparr>],
             res_modelText = Some ''a fox'', res_attempts = 3\<rparr>, [800, 1600])
   \<and> generate (\<lambda>k. Response 400 None)
     = (Inl (GeminiHttpError ''Gemini API request failed with 400'' 400), [])"
proof -
  let ?w = "snd (generate sample_flaky_fetch)"
  have o: "generateOnce (sample_flaky_fetch (Suc (Suc (Suc 0))))
      = Inr \<lparr>res_images = [\<lparr>part_mimeType = ''image/png'', part_dataBase64 = ''aGVsbG8=''\<rparr>],
             res_modelText = Some ''a fox'', res_attempts = 0\<rparr>"
    "failed_retryably (generateOnce (sample_flaky_fetch (Suc 0)))"
    "failed_retryably (generateOnce (sample_flaky_fetch (Suc (Suc 0))))"
    by (simp_all add: sample_flaky_fetch_def sample_image_body_def failed_retryably_def client_eval)
  note T = generate_retry_policy [of sample_flaky_fetch "Error []" 0 None "[]"]
  have P: "prefix ?w [RETRY_BASE_DELAY_MS, 2 * RETRY_BASE_DELAY_MS]"
    using T by blast
  have C: "length ?w < 2 \<longrightarrow> \<not> failed_retryably (generateOnce (sample_flaky_fetch (Suc (length ?w))))"
    using T by blast
  have D: "fst (generate sample_flaky_fetch)
       = map_sum id (\<lambda>r. r\<lparr>res_attempts := Suc (length ?w)\<rparr>)
           (generateOnce (sample_flaky_fetch (Suc (length ?w))))"
    using T by blast
  have n0: "length ?w \<noteq> 0" using C o(2) by auto
  have n1: "length ?w \<noteq> Suc 0" using C o(3) by auto
  have "length ?w \<le> 2" using T by blast
  with n0 n1 have len: "length ?w = Suc (Suc 0)" by linarith
  have w: "?w = [RETRY_BASE_DELAY_MS, 2 * RETRY_BASE_DELAY_MS]"
    using P len by (auto simp: prefix_def length_Suc_conv)
  have f: "fst (generate sample_flaky_fetch)
       = Inr \<lparr>res_images = [\<lparr>part_mimeType = ''image/png'', part_dataBase64 = ''aGVsbG8=''\<rparr>],
             res_modelText = Some ''a fox'', res_attempts = 3\<rparr>"
    unfolding D len o(1) by simp
  have A: "generate sample_flaky_fetch
     = (Inr \<lparr>res_images = [\<lparr>part_mimeType = ''image/png'', part_dataBase64 = ''aGVsbG8=''\<rparr>],
             res_modelText = Some ''a fox'', res_attempts = 3\<rparr>, [800, 1600])"
    using f w by (simp add: prod_eq_iff RETRY_BASE_DELAY_MS_def)
  have g: "generateOnce (Response 400 None)
      = Inl (GeminiHttpError ''Gemini API request failed with 400'' 400)"
    by (simp add: client_eval)
  have B: "generate (\<lambda>k. Response 400 None)
     = (Inl (GeminiHttpError ''Gemini API request failed with 400'' 400), [])"
    using generate_retry_policy [of "\<lambda>k. Response 400 None"
        "GeminiHttpError ''Gemini API request failed with 400'' 400" 0 None "[]"] g
    by simp
  from A B show ?thesis by simp
qed



section \<open>Properties of the artifact store\<close>



end
